theory Spec2Isabelle
  imports Complex_Main
begin

section \<open>JavaScript values\<close>

text \<open>
  The extraction result is a JSON object whose fields may be absent (\<open>undefined\<close>),
  \<open>null\<close> (the prompt asks the model to "use null for fields that cannot be found") or
  hold a value. A number is the exact rational value of a double. The line item check,
  which compares amounts at a tolerance of one cent, is computed in double arithmetic
  (section "Double precision arithmetic"); the other computations are exact. String
  fields hold strings of 8-bit code units. A field is assumed to hold a value of its
  schema type, or \<open>null\<close>, or to be absent.
\<close>

datatype 'a js = Undefined | Null | Val 'a

text \<open>Truthiness of a number (\<open>0\<close> is falsy) and of a string (\<open>""\<close> is falsy).\<close>

fun truthy :: "rat js \<Rightarrow> bool" where
  "truthy (Val r) = (r \<noteq> 0)"
| "truthy _ = False"

fun truthyStr :: "string js \<Rightarrow> bool" where
  "truthyStr (Val s) = (s \<noteq> [])"
| "truthyStr _ = False"

text \<open>\<open>x || 0\<close> on a numeric field; under a truthiness guard it is the field's value.\<close>

fun orZero :: "rat js \<Rightarrow> rat" where
  "orZero (Val r) = r"
| "orZero _ = 0"

fun strOf :: "string js \<Rightarrow> string" where
  "strOf (Val s) = s"
| "strOf _ = []"

text \<open>
  \<open>ToNumber\<close> as the relational operators apply it: \<open>undefined\<close> becomes NaN (here
  \<open>None\<close>, every comparison with it is false) and \<open>null\<close> becomes \<open>0\<close>.
\<close>

fun toNumber :: "rat js \<Rightarrow> rat option" where
  "toNumber Undefined = None"
| "toNumber Null = Some 0"
| "toNumber (Val r) = Some r"

definition js_le :: "rat js \<Rightarrow> rat \<Rightarrow> bool" where
  "js_le x c = (case toNumber x of None \<Rightarrow> False | Some r \<Rightarrow> r \<le> c)"

definition js_lt :: "rat js \<Rightarrow> rat \<Rightarrow> bool" where
  "js_lt x c = (case toNumber x of None \<Rightarrow> False | Some r \<Rightarrow> r < c)"

definition js_gt :: "rat js \<Rightarrow> rat \<Rightarrow> bool" where
  "js_gt x c = (case toNumber x of None \<Rightarrow> False | Some r \<Rightarrow> c < r)"

text \<open>
  \<open>a / b > c\<close> for numbers: a division by zero gives \<open>Infinity\<close>, \<open>-Infinity\<close> or
  NaN according to the sign of \<open>a\<close>, where HOL's \<open>a / 0\<close> would be \<open>0\<close>.
\<close>

definition quot_gt :: "rat \<Rightarrow> rat \<Rightarrow> rat \<Rightarrow> bool" where
  "quot_gt a b c = (if b = 0 then 0 < a else c < a / b)"

text \<open>\<open>Math.round\<close> rounds to the nearest integer, a tie towards plus infinity.\<close>

definition Math_round :: "rat \<Rightarrow> rat" where
  "Math_round x = of_int \<lfloor>x + 1 / 2\<rfloor>"

text \<open>
  \<open>x.toFixed(2)\<close> read back as a number: the magnitude is rounded to two decimals, a
  tie away from zero, and the sign is put back.
\<close>

definition toFixed2 :: "rat \<Rightarrow> rat" where
  "toFixed2 x = (if x < 0 then - (of_int \<lfloor>- x * 100 + 1 / 2\<rfloor> / 100)
                 else of_int \<lfloor>x * 100 + 1 / 2\<rfloor> / 100)"

section \<open>Double precision arithmetic\<close>

text \<open>
  A double is a rational \<open>m * 2 ^ e\<close> with a significand \<open>m\<close> of at most 53 bits and an
  exponent of the least bit \<open>e \<ge> -1074\<close>. \<open>fl x\<close> is the double nearest to \<open>x\<close>, a tie going
  to the even significand: it is what an arithmetic operation of the source returns for
  the exact result \<open>x\<close>, and what a number literal of value \<open>x\<close> denotes. Overflow to
  \<open>Infinity\<close> (magnitudes from \<open>2 ^ 1024\<close> on) is not modelled.
\<close>

definition pow2 :: "int \<Rightarrow> rat" where
  "pow2 e = (if 0 \<le> e then 2 ^ nat e else 1 / 2 ^ nat (- e))"

text \<open>The number of binary digits of a positive integer.\<close>

function bitLength :: "int \<Rightarrow> int" where
  "bitLength n = (if 0 < n then bitLength (n div 2) + 1 else 0)"
  by pat_completeness auto
termination
  by (relation "measure nat") auto

declare bitLength.simps [simp del]

text \<open>The exponent \<open>e\<close> with \<open>2 ^ e \<le> |x| < 2 ^ (e + 1)\<close>, for \<open>x\<close> other than zero.\<close>

definition exponentOf :: "rat \<Rightarrow> int" where
  "exponentOf x =
     (case quotient_of \<bar>x\<bar> of
        (p, q) \<Rightarrow> let e = bitLength p - bitLength q in if pow2 e \<le> \<bar>x\<bar> then e else e - 1)"

definition roundHalfEven :: "rat \<Rightarrow> int" where
  "roundHalfEven y =
     (let n = \<lfloor>y\<rfloor>; d = y - of_int n
      in if d < 1 / 2 then n else if 1 / 2 < d then n + 1 else if even n then n else n + 1)"

definition fl :: "rat \<Rightarrow> rat" where
  "fl x =
     (if x = 0 then 0
      else let u = pow2 (max (exponentOf x) (- 1022) - 52) in of_int (roundHalfEven (x / u)) * u)"

section \<open>The candidate record\<close>

record line_item =
  description :: "string js"
  quantity :: "rat js"
  unitPrice :: "rat js"
  amount :: "rat js"
  confidence :: "rat js"

text \<open>
  \<open>mapped_fields\<close> holds the columns that \<open>updateInvoiceWithExtraction\<close> copies by name
  from the candidate to the job record. Eight further string columns (addresses, phone,
  purchase order number, customer name, payment terms, method and bank details) are
  copied in the same way, are read by no check, and are left out.
\<close>

record mapped_fields =
  vendorName :: "string js"
  vendorEmail :: "string js"
  invoiceNumber :: "string js"
  lineItems :: "line_item list js"
  subtotal :: "rat js"
  taxRate :: "rat js"
  taxAmount :: "rat js"
  discountAmount :: "rat js"
  shippingAmount :: "rat js"
  totalAmount :: "rat js"
  currency :: "string js"

record extracted = mapped_fields +
  invoiceDate :: "string js"
  dueDate :: "string js"
  confidenceScore :: "rat js"

text \<open>
  The clock and the date functions of the runtime are parameters: \<open>now\<close> in epoch
  milliseconds, \<open>parseDate s\<close> the time value of \<open>new Date(s)\<close> (\<open>None\<close> for an invalid
  date) and \<open>toISOString\<close>.
\<close>

record clock =
  now :: int
  parseDate :: "string \<Rightarrow> int option"
  toISOString :: "int \<Rightarrow> string"

section \<open>validationService\<close>

text \<open>
  The source reports findings as template strings. Each template is a constructor here,
  carrying the values the template interpolates:
  \<^item> \<open>FieldRequired label\<close>: "\<open>label\<close> is required";
  \<^item> \<open>NoItemsOrTotal\<close>: "Invoice must have line items or a total amount";
  \<^item> \<open>LineItemCalcError n q p expected actual\<close>: "Line item n calculation error:
    q x p = expected, but got actual";
  \<^item> \<open>NonPositiveQuantity n q\<close>, \<open>NegativeUnitPrice n p\<close>: the two line item warnings;
  \<^item> \<open>SubtotalMismatch\<close>, \<open>MinorSubtotalDiscrepancy\<close>, \<open>TotalMismatch\<close>,
    \<open>MinorTotalDiscrepancy\<close>: extracted value and calculated value;
  \<^item> \<open>TaxDiscrepancy rate subtotal expected got\<close>;
  \<^item> the remaining constructors are named after their message.
\<close>

datatype message =
    FieldRequired string
  | NoItemsOrTotal
  | LineItemCalcError nat rat rat rat rat
  | NonPositiveQuantity nat "rat js"
  | NegativeUnitPrice nat "rat js"
  | SubtotalMismatch rat rat
  | MinorSubtotalDiscrepancy rat rat
  | TotalMismatch rat rat
  | MinorTotalDiscrepancy rat rat
  | TaxDiscrepancy rat rat rat rat
  | InvalidInvoiceDate string
  | InvoiceDateOld string
  | InvoiceDateFuture string
  | InvalidDueDate string
  | InvalidVendorEmail string
  | UnusualCurrency string
  | DueBeforeInvoice
  | DiscountExceedsSubtotal
  | DiscountOverHalf
  | UnusualTaxRate rat
  | TotalNotPositive
  | VeryHighAmount rat
  | InvoiceNumberAllZeros
  | RoundTotal
  | HighAmountNoTax
  | IdenticalQuantities

record validation_result =
  isValid :: bool
  errors :: "message list"
  warnings :: "message list"
  requiresManualReview :: bool

text \<open>
  The source passes the two arrays \<open>errors\<close> and \<open>warnings\<close> to every check, which
  pushes to them; here each check takes the pair and returns it updated.
\<close>

type_synonym findings = "message list \<times> message list"

definition pushError :: "message \<Rightarrow> findings \<Rightarrow> findings" where
  "pushError m f = (fst f @ [m], snd f)"

definition pushWarning :: "message \<Rightarrow> findings \<Rightarrow> findings" where
  "pushWarning m f = (fst f, snd f @ [m])"

definition pushErrorIf :: "bool \<Rightarrow> message \<Rightarrow> findings \<Rightarrow> findings" where
  "pushErrorIf b m f = (if b then pushError m f else f)"

definition pushWarningIf :: "bool \<Rightarrow> message \<Rightarrow> findings \<Rightarrow> findings" where
  "pushWarningIf b m f = (if b then pushWarning m f else f)"

text \<open>\<open>!invoice[field] && invoice[field] !== 0\<close> for a string and for a numeric field.\<close>

definition missingStr :: "string js \<Rightarrow> bool" where
  "missingStr x = (\<not> truthyStr x)"

definition missingNum :: "rat js \<Rightarrow> bool" where
  "missingNum x = (\<not> truthy x \<and> x \<noteq> Val 0)"

definition noLineItems :: "line_item list js \<Rightarrow> bool" where
  "noLineItems x = (case x of Val items \<Rightarrow> items = [] | _ \<Rightarrow> True)"

definition validateRequiredFields :: "extracted \<Rightarrow> findings \<Rightarrow> findings" where
  "validateRequiredFields invoice f =
     (let f = pushErrorIf (missingStr (vendorName invoice)) (FieldRequired ''Vendor name'') f;
          f = pushErrorIf (missingStr (invoiceNumber invoice)) (FieldRequired ''Invoice number'') f;
          f = pushErrorIf (missingStr (invoiceDate invoice)) (FieldRequired ''Invoice date'') f;
          f = pushErrorIf (missingNum (totalAmount invoice)) (FieldRequired ''Total amount'') f
      in pushErrorIf (noLineItems (lineItems invoice) \<and> \<not> truthy (totalAmount invoice))
           NoItemsOrTotal f)"

text \<open>
  One turn of the loop over the line items, for the item at index \<open>i\<close> (reported as
  \<open>i + 1\<close>). The products, the quotients, the difference and the literal \<open>0.01\<close> are
  doubles; \<open>Math.round\<close> of a double is exact.
\<close>

definition checkLineItem :: "nat \<Rightarrow> line_item \<Rightarrow> findings \<Rightarrow> findings" where
  "checkLineItem i item f =
     (let f = (if truthy (quantity item) \<and> truthy (unitPrice item) \<and> truthy (amount item) then
                 let expected =
                       fl (Math_round (fl (fl (orZero (quantity item) * orZero (unitPrice item)) * 100)) / 100);
                     actual = fl (Math_round (fl (orZero (amount item) * 100)) / 100)
                 in pushErrorIf (\<bar>fl (expected - actual)\<bar> > fl (1 / 100))
                      (LineItemCalcError (i + 1) (orZero (quantity item)) (orZero (unitPrice item))
                         expected actual) f
               else f);
          f = pushWarningIf (js_le (quantity item) 0) (NonPositiveQuantity (i + 1) (quantity item)) f
      in pushWarningIf (js_lt (unitPrice item) 0) (NegativeUnitPrice (i + 1) (unitPrice item)) f)"

fun checkLineItems :: "nat \<Rightarrow> line_item list \<Rightarrow> findings \<Rightarrow> findings" where
  "checkLineItems i [] f = f"
| "checkLineItems i (item # items) f = checkLineItems (i + 1) items (checkLineItem i item f)"

definition calculatedSubtotal :: "line_item list \<Rightarrow> rat" where
  "calculatedSubtotal items = foldl (\<lambda>sum item. sum + orZero (amount item)) 0 items"

definition checkSubtotal :: "extracted \<Rightarrow> rat \<Rightarrow> findings \<Rightarrow> findings" where
  "checkSubtotal invoice calc f =
     (if truthy (subtotal invoice) then
        let st = orZero (subtotal invoice); subtotalDiff = \<bar>st - calc\<bar>
        in if subtotalDiff > 1 / 100 then
             (if quot_gt subtotalDiff calc (5 / 100) then pushError (SubtotalMismatch st calc) f
              else pushWarning (MinorSubtotalDiscrepancy st calc) f)
           else f
      else f)"

definition expectedTotal :: "extracted \<Rightarrow> rat \<Rightarrow> rat" where
  "expectedTotal invoice calc =
     (if truthy (subtotal invoice) then orZero (subtotal invoice) else calc)
       + orZero (taxAmount invoice) - orZero (discountAmount invoice)
       + orZero (shippingAmount invoice)"

definition checkTotal :: "extracted \<Rightarrow> rat \<Rightarrow> findings \<Rightarrow> findings" where
  "checkTotal invoice calc f =
     (if truthy (totalAmount invoice) then
        let total = orZero (totalAmount invoice); expected = expectedTotal invoice calc;
            totalDiff = \<bar>total - expected\<bar>
        in if totalDiff > 1 / 100 then
             (if quot_gt totalDiff expected (5 / 100) then pushError (TotalMismatch total expected) f
              else pushWarning (MinorTotalDiscrepancy total expected) f)
           else f
      else f)"

definition checkTax :: "extracted \<Rightarrow> findings \<Rightarrow> findings" where
  "checkTax invoice f =
     (if truthy (taxRate invoice) \<and> truthy (taxAmount invoice) \<and> truthy (subtotal invoice) then
        let expectedTax = orZero (subtotal invoice) * (orZero (taxRate invoice) / 100)
        in pushWarningIf (\<bar>expectedTax - orZero (taxAmount invoice)\<bar> > 1 / 100)
             (TaxDiscrepancy (orZero (taxRate invoice)) (orZero (subtotal invoice)) expectedTax
                (orZero (taxAmount invoice))) f
      else f)"

definition validateCalculations :: "extracted \<Rightarrow> findings \<Rightarrow> findings" where
  "validateCalculations invoice f =
     (case lineItems invoice of
        Val items \<Rightarrow>
          if items = [] then f
          else
            let f = checkLineItems 0 items f;
                calc = calculatedSubtotal items;
                f = checkSubtotal invoice calc f;
                f = checkTotal invoice calc f
            in checkTax invoice f
      | _ \<Rightarrow> f)"

text \<open>
  The regular expression \<open>/^[^\s@]+@[^\s@]+\.[^\s@]+$/\<close>: no white space, exactly one
  \<open>@\<close> with something before it, and after it a dot that is neither the first nor the
  last character. \<open>isSpace\<close> is the class \<open>\s\<close> on 8-bit code units.
\<close>

definition isSpace :: "char \<Rightarrow> bool" where
  "isSpace c = ((of_char c :: nat) \<in> {9, 10, 11, 12, 13, 32, 160})"

definition emailRegex_test :: "string \<Rightarrow> bool" where
  "emailRegex_test s =
     (let a = takeWhile (\<lambda>c. c \<noteq> CHR ''@'') s; r = drop (length a + 1) s
      in a \<noteq> [] \<and> length a < length s \<and> (\<forall>c \<in> set s. \<not> isSpace c) \<and> CHR ''@'' \<notin> set r
         \<and> (\<exists>i \<in> set [1 ..< length r - 1]. r ! i = CHR ''.''))"

text \<open>The regular expression \<open>/^0+$/\<close>.\<close>

definition allZeros :: "string \<Rightarrow> bool" where
  "allZeros s = (s \<noteq> [] \<and> (\<forall>c \<in> set s. c = CHR ''0''))"

definition validCurrencies :: "string list" where
  "validCurrencies = [''USD'', ''EUR'', ''GBP'', ''CAD'', ''AUD'', ''JPY'', ''CNY'', ''INR'']"

definition dayMs :: int where
  "dayMs = 24 * 60 * 60 * 1000"

definition checkInvoiceDate :: "clock \<Rightarrow> extracted \<Rightarrow> findings \<Rightarrow> findings" where
  "checkInvoiceDate clk invoice f =
     (if truthyStr (invoiceDate invoice) then
        (case parseDate clk (strOf (invoiceDate invoice)) of
           None \<Rightarrow> pushError (InvalidInvoiceDate (strOf (invoiceDate invoice))) f
         | Some date \<Rightarrow>
             let oneYearAgo = now clk - 365 * dayMs; oneMonthAhead = now clk + 30 * dayMs;
                 f = pushWarningIf (date < oneYearAgo) (InvoiceDateOld (strOf (invoiceDate invoice))) f
             in pushWarningIf (date > oneMonthAhead) (InvoiceDateFuture (strOf (invoiceDate invoice))) f)
      else f)"

definition checkDueDate :: "clock \<Rightarrow> extracted \<Rightarrow> findings \<Rightarrow> findings" where
  "checkDueDate clk invoice f =
     pushErrorIf (truthyStr (dueDate invoice) \<and> parseDate clk (strOf (dueDate invoice)) = None)
       (InvalidDueDate (strOf (dueDate invoice))) f"

definition validateFormats :: "clock \<Rightarrow> extracted \<Rightarrow> findings \<Rightarrow> findings" where
  "validateFormats clk invoice f =
     (let f = checkInvoiceDate clk invoice f;
          f = checkDueDate clk invoice f;
          f = pushWarningIf (truthyStr (vendorEmail invoice)
                \<and> \<not> emailRegex_test (strOf (vendorEmail invoice)))
                (InvalidVendorEmail (strOf (vendorEmail invoice))) f
      in pushWarningIf (truthyStr (currency invoice) \<and> strOf (currency invoice) \<notin> set validCurrencies)
           (UnusualCurrency (strOf (currency invoice))) f)"

text \<open>\<open>dueDate < invoiceDate\<close> on two \<open>Date\<close> objects: false when either is invalid.\<close>

definition dueBeforeInvoice :: "clock \<Rightarrow> extracted \<Rightarrow> bool" where
  "dueBeforeInvoice clk invoice =
     (case (parseDate clk (strOf (dueDate invoice)), parseDate clk (strOf (invoiceDate invoice))) of
        (Some due, Some issued) \<Rightarrow> due < issued
      | _ \<Rightarrow> False)"

definition validateBusinessRules :: "clock \<Rightarrow> extracted \<Rightarrow> findings \<Rightarrow> findings" where
  "validateBusinessRules clk invoice f =
     (let f = pushErrorIf (truthyStr (invoiceDate invoice) \<and> truthyStr (dueDate invoice)
                \<and> dueBeforeInvoice clk invoice) DueBeforeInvoice f;
          f = (if truthy (discountAmount invoice) \<and> truthy (subtotal invoice) then
                 let f = pushErrorIf (orZero (discountAmount invoice) > orZero (subtotal invoice))
                           DiscountExceedsSubtotal f
                 in pushWarningIf (orZero (discountAmount invoice) / orZero (subtotal invoice) > 1 / 2)
                      DiscountOverHalf f
               else f);
          f = pushWarningIf (truthy (taxRate invoice)
                \<and> (orZero (taxRate invoice) < 0 \<or> orZero (taxRate invoice) > 50))
                (UnusualTaxRate (orZero (taxRate invoice))) f
      in if truthy (totalAmount invoice) then
           let f = pushErrorIf (orZero (totalAmount invoice) \<le> 0) TotalNotPositive f
           in pushWarningIf (orZero (totalAmount invoice) > 1000000)
                (VeryHighAmount (orZero (totalAmount invoice))) f
         else f)"

text \<open>\<open>x % 100 === 0\<close>: \<open>x\<close> is an integer multiple of \<open>100\<close>.\<close>

definition multipleOf100 :: "rat \<Rightarrow> bool" where
  "multipleOf100 x = (x / 100 = of_int \<lfloor>x / 100\<rfloor>)"

definition identicalQuantities :: "line_item list js \<Rightarrow> bool" where
  "identicalQuantities x =
     (case x of
        Val items \<Rightarrow>
          length items > 3 \<and>
          (let quantities = map quantity items in \<forall>q \<in> set quantities. q = quantities ! 0)
      | _ \<Rightarrow> False)"

text \<open>\<open>detectAnomalies\<close> receives the \<open>warnings\<close> array only.\<close>

definition detectAnomalies :: "extracted \<Rightarrow> findings \<Rightarrow> findings" where
  "detectAnomalies invoice f =
     (let f = pushWarningIf (truthyStr (invoiceNumber invoice) \<and> allZeros (strOf (invoiceNumber invoice)))
                InvoiceNumberAllZeros f;
          f = pushWarningIf (truthy (totalAmount invoice) \<and> multipleOf100 (orZero (totalAmount invoice))
                \<and> orZero (totalAmount invoice) > 1000) RoundTotal f;
          f = pushWarningIf (js_gt (totalAmount invoice) 1000 \<and> \<not> truthy (taxAmount invoice)
                \<and> \<not> truthy (taxRate invoice)) HighAmountNoTax f
      in pushWarningIf (identicalQuantities (lineItems invoice)) IdenticalQuantities f)"

definition validateInvoice :: "clock \<Rightarrow> extracted \<Rightarrow> validation_result" where
  "validateInvoice clk invoice =
     (let f = ([], []);
          f = validateRequiredFields invoice f;
          f = validateCalculations invoice f;
          f = validateFormats clk invoice f;
          f = validateBusinessRules clk invoice f;
          f = detectAnomalies invoice f
      in \<lparr>isValid = (length (fst f) = 0), errors = fst f, warnings = snd f,
          requiresManualReview = (length (fst f) > 0 \<or> length (snd f) > 2)\<rparr>)"

definition adjustConfidenceScore :: "rat \<Rightarrow> validation_result \<Rightarrow> rat" where
  "adjustConfidenceScore baseConfidence validationResult =
     (let adjustment = 0;
          adjustment = adjustment - of_nat (length (errors validationResult)) * (1 / 10);
          adjustment = adjustment - of_nat (length (warnings validationResult)) * (1 / 50)
      in max 0 (min 1 (baseConfidence + adjustment)))"

section \<open>extractionService\<close>

text \<open>
  A thrown \<open>Error\<close> object: its name, its message and the three properties the
  authentication test reads. A code is a number or a string.
\<close>

datatype code_val = CodeNum int | CodeStr string

record js_error =
  errName :: string
  errMessage :: string
  errStatus :: "code_val js"
  errCode :: "code_val js"
  errStatusCode :: "code_val js"

fun truthyCode :: "code_val js \<Rightarrow> bool" where
  "truthyCode (Val (CodeNum n)) = (n \<noteq> 0)"
| "truthyCode (Val (CodeStr s)) = (s \<noteq> [])"
| "truthyCode _ = False"

text \<open>\<open>String.prototype.toLowerCase\<close> on ASCII letters, and \<open>String.prototype.includes\<close>.\<close>

definition lowerChar :: "char \<Rightarrow> char" where
  "lowerChar c = (let n = (of_char c :: nat) in if 65 \<le> n \<and> n \<le> 90 then char_of (n + 32) else c)"

definition toLowerCase :: "string \<Rightarrow> string" where
  "toLowerCase s = map lowerChar s"

fun str_includes :: "string \<Rightarrow> string \<Rightarrow> bool" where
  "str_includes [] p = (p = [])"
| "str_includes (c # cs) p = (take (length p) (c # cs) = p \<or> str_includes cs p)"

text \<open>\<open>Error.prototype.toString\<close>.\<close>

definition errToString :: "js_error \<Rightarrow> string" where
  "errToString e =
     (if errName e = [] then errMessage e
      else if errMessage e = [] then errName e
      else errName e @ '': '' @ errMessage e)"

text \<open>
  The test of the \<open>catch\<close> block of \<open>extractInvoiceData\<close> that selects the fallback to
  mock data: \<open>errorStr\<close> is \<open>(error.message || error.toString() || '').toLowerCase()\<close> and
  \<open>errorCode\<close> is \<open>error.status || error.code || error.statusCode\<close>.
\<close>

definition errorStr :: "js_error \<Rightarrow> string" where
  "errorStr e = toLowerCase (if errMessage e \<noteq> [] then errMessage e else errToString e)"

definition errorCode :: "js_error \<Rightarrow> code_val js" where
  "errorCode e =
     (if truthyCode (errStatus e) then errStatus e
      else if truthyCode (errCode e) then errCode e
      else errStatusCode e)"

definition isAuthFailure :: "js_error \<Rightarrow> bool" where
  "isAuthFailure e =
     (str_includes (errorStr e) ''api key'' \<or> str_includes (errorStr e) ''401''
      \<or> str_includes (errorStr e) ''authentication'' \<or> str_includes (errorStr e) ''unauthorized''
      \<or> errorCode e = Val (CodeNum 401) \<or> errorCode e = Val (CodeStr ''401''))"

text \<open>
  \<open>Math.random()\<close> is a parameter: \<open>rnd i\<close> is the value of the \<open>i\<close>-th call made by one
  run of \<open>generateMockInvoiceData\<close>, in the order of evaluation: 0 vendor, 1 customer,
  2 subtotal, 3 phone, 4 invoice number, 5 purchase order number, 6 quantity of item 1,
  7 unit price of item 1, 8 quantity of item 2, 9 and 10 the confidences of the two items,
  11 the overall confidence, 12 the processing time. Its contract is \<open>unitInterval rnd\<close>;
  under it the index \<open>Math.floor(Math.random() * mockVendors.length)\<close> is in range.
\<close>

definition unitInterval :: "(nat \<Rightarrow> rat) \<Rightarrow> bool" where
  "unitInterval rnd = (\<forall>i. 0 \<le> rnd i \<and> rnd i < 1)"

definition mockVendors :: "string list" where
  "mockVendors = [''ABC Technologies'', ''XYZ Services'', ''Global Solutions Inc'', ''Tech Innovations'']"

text \<open>The decimal digits of an integer that is not negative, as \<open>'INV-' + n\<close> renders it.\<close>

function showInt :: "int \<Rightarrow> string" where
  "showInt n = (if n < 10 then [char_of (48 + n)] else showInt (n div 10) @ [char_of (48 + n mod 10)])"
  by pat_completeness auto
termination
  by (relation "measure nat") auto

declare showInt.simps [simp del]

definition mockLineItems :: "(nat \<Rightarrow> rat) \<Rightarrow> rat \<Rightarrow> line_item list" where
  "mockLineItems rnd st =
     (let item1Qty = of_int \<lfloor>rnd 6 * 10 + 1\<rfloor>;
          item1Price = toFixed2 (rnd 7 * 2000 + 500);
          item1Amount = toFixed2 (item1Qty * item1Price);
          item2Qty = of_int \<lfloor>rnd 8 * 5 + 1\<rfloor>;
          item2Price = toFixed2 ((st - item1Amount) / item2Qty);
          item2Amount = toFixed2 (item2Qty * item2Price)
      in [\<lparr>description = Val ''Professional Services'', quantity = Val item1Qty,
            unitPrice = Val item1Price, amount = Val item1Amount,
            confidence = Val (9 / 10 + rnd 9 * (1 / 10))\<rparr>,
          \<lparr>description = Val ''Consulting Fees'', quantity = Val item2Qty,
            unitPrice = Val item2Price, amount = Val item2Amount,
            confidence = Val (9 / 10 + rnd 10 * (1 / 10))\<rparr>])"

definition generateMockInvoiceData :: "clock \<Rightarrow> (nat \<Rightarrow> rat) \<Rightarrow> extracted" where
  "generateMockInvoiceData clk rnd =
     (let vendor = mockVendors ! nat \<lfloor>rnd 0 * of_nat (length mockVendors)\<rfloor>;
          st = toFixed2 (rnd 2 * 50000 + 5000);
          rate = 18;
          tax = toFixed2 (st * rate / 100);
          total = toFixed2 (st + tax)
      in \<lparr>vendorName = Val vendor,
          vendorEmail = Val (''contact@'' @ filter (\<lambda>c. \<not> isSpace c) (toLowerCase vendor) @ ''.com''),
          invoiceNumber = Val (''INV-'' @ showInt \<lfloor>rnd 4 * 900000 + 100000\<rfloor>),
          lineItems = Val (mockLineItems rnd st),
          subtotal = Val st,
          taxRate = Val rate,
          taxAmount = Val tax,
          discountAmount = Val 0,
          shippingAmount = Val 0,
          totalAmount = Val total,
          currency = Val ''INR'',
          invoiceDate = Val (toISOString clk (now clk)),
          dueDate = Val (toISOString clk (now clk + 30 * dayMs)),
          confidenceScore = Val (85 / 100 + rnd 11 * (10 / 100))\<rparr>)"

text \<open>
  The call of the vision model is a parameter too. One call either rejects with an
  error, or returns a content on which \<open>JSON.parse\<close> throws a \<open>SyntaxError\<close> (malformed
  output), or returns a content that parses to a candidate.
\<close>

datatype api_outcome = ApiRejected js_error | ContentMalformed js_error | ContentParsed extracted

text \<open>The configuration: the API key and the \<open>processing\<close> section.\<close>

record config =
  apiKey :: "string js"
  maxConcurrent :: int
  retryAttempts :: int
  retryDelayMs :: int

definition extractionFailed :: "clock \<Rightarrow> (nat \<Rightarrow> rat) \<Rightarrow> js_error \<Rightarrow> js_error + extracted" where
  "extractionFailed clk rnd e =
     (if isAuthFailure e then Inr (generateMockInvoiceData clk rnd) else Inl e)"

definition extractInvoiceData ::
    "config \<Rightarrow> clock \<Rightarrow> (nat \<Rightarrow> rat) \<Rightarrow> api_outcome \<Rightarrow> js_error + extracted" where
  "extractInvoiceData cfg clk rnd outcome =
     (if \<not> truthyStr (apiKey cfg) \<or> apiKey cfg = Val ''your_openai_api_key_here''
      then Inr (generateMockInvoiceData clk rnd)
      else (case outcome of
              ContentParsed extractedData \<Rightarrow> Inr extractedData
            | ContentMalformed e \<Rightarrow> extractionFailed clk rnd e
            | ApiRejected e \<Rightarrow> extractionFailed clk rnd e))"

text \<open>\<open>calculateConfidenceScore\<close>: the mean of the scores pushed, one to three of them.\<close>

definition presentCount :: "extracted \<Rightarrow> nat" where
  "presentCount d =
     (if truthyStr (vendorName d) then 1 else 0) + (if truthyStr (invoiceNumber d) then 1 else 0)
     + (if truthyStr (invoiceDate d) then 1 else 0) + (if truthy (totalAmount d) then 1 else 0)
     + (case lineItems d of Val items \<Rightarrow> 1 | _ \<Rightarrow> 0)"

definition avgConfidence :: "line_item list \<Rightarrow> rat" where
  "avgConfidence items =
     foldl (\<lambda>sum item. sum + orZero (confidence item)) 0 items / of_nat (length items)"

definition confidenceScores :: "extracted \<Rightarrow> rat list" where
  "confidenceScores d =
     [of_nat (presentCount d) / 5]
     @ (case lineItems d of
          Val items \<Rightarrow> if length items > 0 then [avgConfidence items] else []
        | _ \<Rightarrow> [])
     @ (if truthy (confidenceScore d) then [orZero (confidenceScore d)] else [])"

definition calculateConfidenceScore :: "extracted \<Rightarrow> rat" where
  "calculateConfidenceScore d =
     foldl (\<lambda>sum score. sum + score) 0 (confidenceScores d) / of_nat (length (confidenceScores d))"

section \<open>The job record\<close>

datatype status = pending | processing | completed | failed | review_required

text \<open>
  A row of the \<open>invoices\<close> table. The column \<open>id\<close> is \<open>invoiceId\<close> here, and the four
  columns whose names the candidate or the validation result also use carry the prefix
  \<open>inv_\<close>. A \<open>Date\<close> column holds a time value, \<open>None\<close> for an invalid date. The columns
  that \<open>processInvoice\<close> and \<open>retryInvoice\<close> neither read nor write are left out.
\<close>

record invoice = mapped_fields +
  invoiceId :: string
  filePath :: string
  status :: status
  processingStartedAt :: "int js"
  processingCompletedAt :: "int js"
  processingTimeMs :: "int js"
  inv_invoiceDate :: "int option js"
  inv_dueDate :: "int option js"
  inv_confidenceScore :: "rat js"
  validationErrors :: "message list"
  validationWarnings :: "message list"
  isValidated :: bool
  inv_requiresManualReview :: bool
  rawExtractionData :: "extracted js"
  webhookUrl :: "string js"
  webhookSent :: bool
  retryCount :: "int js"
  lastError :: "string js"

type_synonym db = "string \<rightharpoonup> invoice"

section \<open>processingService\<close>

text \<open>
  What one run of \<open>processInvoice\<close> reads from outside: the clock, the document service,
  the outcome of the model call and the random source of each extraction attempt, and the
  time the run takes. Persistence is taken to succeed, and a run is taken to be alone on
  its row.
\<close>

record world =
  clk :: clock
  processDocument :: "string \<Rightarrow> js_error + string"
  apiOutcome :: "int \<Rightarrow> api_outcome"
  mathRandom :: "int \<Rightarrow> nat \<Rightarrow> rat"
  elapsedMs :: int

text \<open>What a run does to the outside: extraction calls, back-off delays and webhooks.\<close>

datatype payload =
    InvoiceProcessed string status "rat js" "int js"
  | InvoiceFailed string string

datatype event = ExtractionCall int | Delay int | Webhook string payload

text \<open>
  \<open>extractWithRetry\<close>: the loop from \<open>attempt\<close> on, with the \<open>lastError\<close> caught so far
  (\<open>None\<close> is \<open>undefined\<close>). The result is the candidate, or the value thrown after the
  loop.
\<close>

definition withEvents :: "event list \<Rightarrow> 'a \<times> event list \<Rightarrow> 'a \<times> event list" where
  "withEvents evs r = (fst r, evs @ snd r)"

function extractWithRetry_from ::
    "config \<Rightarrow> world \<Rightarrow> int \<Rightarrow> js_error option \<Rightarrow> (js_error option + extracted) \<times> event list" where
  "extractWithRetry_from cfg w attempt lastErr =
     (if attempt \<le> retryAttempts cfg then
        (case extractInvoiceData cfg (clk w) (mathRandom w attempt) (apiOutcome w attempt) of
           Inr extractedData \<Rightarrow> (Inr extractedData, [ExtractionCall attempt])
         | Inl e \<Rightarrow>
             withEvents
               (ExtractionCall attempt #
                 (if attempt < retryAttempts cfg then [Delay (retryDelayMs cfg * attempt)] else []))
               (extractWithRetry_from cfg w (attempt + 1) (Some e)))
      else (Inl lastErr, []))"
  by pat_completeness auto
termination
  by (relation "measure (\<lambda>(cfg, w, attempt, lastErr). nat (retryAttempts cfg + 1 - attempt))") auto

declare extractWithRetry_from.simps [simp del]

definition extractWithRetry :: "config \<Rightarrow> world \<Rightarrow> (js_error option + extracted) \<times> event list" where
  "extractWithRetry cfg w = extractWithRetry_from cfg w 1 None"

text \<open>\<open>invoice[field] = extractedData[field]\<close> when the latter is not \<open>undefined\<close>.\<close>

definition copyField :: "'a js \<Rightarrow> 'a js \<Rightarrow> 'a js" where
  "copyField new old = (if new \<noteq> Undefined then new else old)"

definition copyMappedFields :: "extracted \<Rightarrow> invoice \<Rightarrow> invoice" where
  "copyMappedFields d i =
     i\<lparr>vendorName := copyField (vendorName d) (vendorName i),
       vendorEmail := copyField (vendorEmail d) (vendorEmail i),
       invoiceNumber := copyField (invoiceNumber d) (invoiceNumber i),
       lineItems := copyField (lineItems d) (lineItems i),
       subtotal := copyField (subtotal d) (subtotal i),
       taxRate := copyField (taxRate d) (taxRate i),
       taxAmount := copyField (taxAmount d) (taxAmount i),
       discountAmount := copyField (discountAmount d) (discountAmount i),
       shippingAmount := copyField (shippingAmount d) (shippingAmount i),
       totalAmount := copyField (totalAmount d) (totalAmount i),
       currency := copyField (currency d) (currency i)\<rparr>"

text \<open>\<open>extractedData.confidenceScore || extractionService.calculateConfidenceScore(extractedData)\<close>.\<close>

definition baseConfidence :: "extracted \<Rightarrow> rat" where
  "baseConfidence d =
     (if truthy (confidenceScore d) then orZero (confidenceScore d) else calculateConfidenceScore d)"

definition updateInvoiceWithExtraction ::
    "clock \<Rightarrow> invoice \<Rightarrow> extracted \<Rightarrow> validation_result \<Rightarrow> invoice" where
  "updateInvoiceWithExtraction c i d validationResult =
     (let i = copyMappedFields d i;
          i = (if truthyStr (invoiceDate d)
               then i\<lparr>inv_invoiceDate := Val (parseDate c (strOf (invoiceDate d)))\<rparr> else i);
          i = (if truthyStr (dueDate d)
               then i\<lparr>inv_dueDate := Val (parseDate c (strOf (dueDate d)))\<rparr> else i);
          i = i\<lparr>rawExtractionData := Val d,
                validationErrors := errors validationResult,
                validationWarnings := warnings validationResult,
                isValidated := True,
                inv_requiresManualReview := requiresManualReview validationResult\<rparr>
      in i\<lparr>inv_confidenceScore := Val (adjustConfidenceScore (baseConfidence d) validationResult)\<rparr>)"

text \<open>\<open>(invoice.retryCount || 0) + 1\<close>.\<close>

fun orZeroInt :: "int js \<Rightarrow> int" where
  "orZeroInt (Val n) = n"
| "orZeroInt _ = 0"

text \<open>
  The \<open>catch\<close> block of \<open>processInvoice\<close>, for the value thrown. When the value is
  \<open>undefined\<close>, reading \<open>error.message\<close> throws a \<open>TypeError\<close> in the first statement of
  the block and the row is not touched.
\<close>

definition typeErrorUndefined :: js_error where
  "typeErrorUndefined =
     \<lparr>errName = ''TypeError'',
      errMessage = ''Cannot read properties of undefined (reading 'message')'',
      errStatus = Undefined, errCode = Undefined, errStatusCode = Undefined\<rparr>"

definition processInvoice_catch ::
    "world \<Rightarrow> db \<Rightarrow> string \<Rightarrow> js_error option \<Rightarrow> event list
      \<Rightarrow> (js_error + invoice) \<times> db \<times> event list" where
  "processInvoice_catch w d invId thrown evs =
     (case thrown of
        None \<Rightarrow> (Inl typeErrorUndefined, d, evs)
      | Some e \<Rightarrow>
          (case d invId of
             None \<Rightarrow> (Inl e, d, evs)
           | Some i \<Rightarrow>
               let i = i\<lparr>status := failed,
                         lastError := Val (errMessage e),
                         retryCount := Val (orZeroInt (retryCount i) + 1),
                         processingTimeMs := Val (elapsedMs w)\<rparr>
               in (Inl e, d(invId \<mapsto> i),
                   evs @ (if truthyStr (webhookUrl i)
                          then [Webhook (strOf (webhookUrl i)) (InvoiceFailed (invoiceId i) (errMessage e))]
                          else []))))"

text \<open>\<open>new Error(m)\<close>.\<close>

definition mkError :: "string \<Rightarrow> js_error" where
  "mkError m =
     \<lparr>errName = ''Error'', errMessage = m,
      errStatus = Undefined, errCode = Undefined, errStatusCode = Undefined\<rparr>"

definition notFound :: "string \<Rightarrow> js_error" where
  "notFound invId = mkError (''Invoice '' @ invId @ '' not found'')"

text \<open>Steps 3 to 7 of \<open>processInvoice\<close>, after a successful extraction.\<close>

definition finalStatus :: "validation_result \<Rightarrow> status" where
  "finalStatus validationResult =
     (if length (errors validationResult) > 0 then review_required else completed)"

definition processExtracted ::
    "world \<Rightarrow> db \<Rightarrow> string \<Rightarrow> invoice \<Rightarrow> extracted \<Rightarrow> event list
      \<Rightarrow> (js_error + invoice) \<times> db \<times> event list" where
  "processExtracted w d invId i extractedData evs =
     (let validationResult = validateInvoice (clk w) extractedData;
          i = updateInvoiceWithExtraction (clk w) i extractedData validationResult;
          i = i\<lparr>processingTimeMs := Val (elapsedMs w),
                processingCompletedAt := Val (now (clk w))\<rparr>;
          i = i\<lparr>status := finalStatus validationResult\<rparr>
      in if truthyStr (webhookUrl i) then
           (Inr (i\<lparr>webhookSent := True\<rparr>), d(invId \<mapsto> i\<lparr>webhookSent := True\<rparr>),
            evs @ [Webhook (strOf (webhookUrl i))
                     (InvoiceProcessed (invoiceId i) (status i) (inv_confidenceScore i) (processingTimeMs i))])
         else (Inr i, d(invId \<mapsto> i), evs))"

text \<open>The \<open>try\<close> and \<open>catch\<close> blocks of \<open>processInvoice\<close>.\<close>

definition processInvoice_try ::
    "config \<Rightarrow> world \<Rightarrow> db \<Rightarrow> string \<Rightarrow> (js_error + invoice) \<times> db \<times> event list" where
  "processInvoice_try cfg w d invId =
     (case d invId of
        None \<Rightarrow> processInvoice_catch w d invId (Some (notFound invId)) []
      | Some i \<Rightarrow>
          let i = i\<lparr>status := processing, processingStartedAt := Val (now (clk w))\<rparr>;
              d = d(invId \<mapsto> i)
          in (case processDocument w (filePath i) of
                Inl e \<Rightarrow> processInvoice_catch w d invId (Some e) []
              | Inr documentData \<Rightarrow>
                  (case extractWithRetry cfg w of
                     (Inl thrown, evs) \<Rightarrow> processInvoice_catch w d invId thrown evs
                   | (Inr extractedData, evs) \<Rightarrow> processExtracted w d invId i extractedData evs)))"

subsection \<open>The queue\<close>

text \<open>
  The state of the service: the queue of job ids and the counter. \<open>inFlight\<close> is not in
  the source: it lists the runs of \<open>processInvoice\<close> that have started and have not
  reached their \<open>finally\<close> block, in the order they started. The event loop is single
  threaded; a run starts synchronously (the counter is incremented before the first
  \<open>await\<close>), so \<open>processQueue\<close> sees the incremented counter in its next test.
\<close>

record queue_state =
  processingQueue :: "string list"
  activeProcessing :: int
  inFlight :: "string list"

definition initialState :: queue_state where
  "initialState = \<lparr>processingQueue = [], activeProcessing = 0, inFlight = []\<rparr>"

definition processInvoice_start :: "queue_state \<Rightarrow> string \<Rightarrow> queue_state" where
  "processInvoice_start s invId =
     s\<lparr>activeProcessing := activeProcessing s + 1, inFlight := inFlight s @ [invId]\<rparr>"

function processQueue :: "config \<Rightarrow> queue_state \<Rightarrow> queue_state" where
  "processQueue cfg s =
     (if length (processingQueue s) > 0 \<and> activeProcessing s < maxConcurrent cfg then
        processQueue cfg
          (processInvoice_start (s\<lparr>processingQueue := tl (processingQueue s)\<rparr>)
             (hd (processingQueue s)))
      else s)"
  by pat_completeness auto
termination
  by (relation "measure (\<lambda>(cfg, s). length (processingQueue s))")
     (auto simp: processInvoice_start_def)

declare processQueue.simps [simp del]

definition queueInvoice :: "config \<Rightarrow> queue_state \<Rightarrow> string \<Rightarrow> queue_state" where
  "queueInvoice cfg s invId = processQueue cfg (s\<lparr>processingQueue := processingQueue s @ [invId]\<rparr>)"

text \<open>The \<open>finally\<close> block of \<open>processInvoice\<close>, reached on success and on failure alike.\<close>

definition processInvoice_finally :: "config \<Rightarrow> queue_state \<Rightarrow> string \<Rightarrow> queue_state" where
  "processInvoice_finally cfg s invId =
     processQueue cfg
       (s\<lparr>activeProcessing := activeProcessing s - 1, inFlight := remove1 invId (inFlight s)\<rparr>)"

text \<open>
  What can happen to the queue: a job is queued, or a run in flight comes to its end. A
  sequence of such actions is run from a state; it is \<open>None\<close> when it ends a run that is
  not in flight.
\<close>

datatype action = Enqueue string | Finish string

fun step :: "config \<Rightarrow> queue_state \<Rightarrow> action \<Rightarrow> queue_state option" where
  "step cfg s (Enqueue invId) = Some (queueInvoice cfg s invId)"
| "step cfg s (Finish invId) =
     (if invId \<in> set (inFlight s) then Some (processInvoice_finally cfg s invId) else None)"

fun run :: "config \<Rightarrow> queue_state \<Rightarrow> action list \<Rightarrow> queue_state option" where
  "run cfg s [] = Some s"
| "run cfg s (a # as) = (case step cfg s a of None \<Rightarrow> None | Some s' \<Rightarrow> run cfg s' as)"

text \<open>The number of jobs \<open>processQueue\<close> admits: as many as the queue and the budget allow.\<close>

definition admitted :: "config \<Rightarrow> queue_state \<Rightarrow> nat" where
  "admitted cfg s = min (length (processingQueue s)) (nat (maxConcurrent cfg - activeProcessing s))"

subsection \<open>Manual retry\<close>

definition retryInvoice ::
    "config \<Rightarrow> db \<times> queue_state \<Rightarrow> string \<Rightarrow> (js_error + invoice) \<times> db \<times> queue_state" where
  "retryInvoice cfg st invId =
     (case fst st invId of
        None \<Rightarrow> (Inl (mkError ''Invoice not found''), st)
      | Some i \<Rightarrow>
          if status i \<noteq> failed then (Inl (mkError ''Can only retry failed invoices''), st)
          else
            let i = i\<lparr>status := pending, lastError := Null\<rparr>
            in (Inr i, (fst st)(invId \<mapsto> i), queueInvoice cfg (snd st) (invoiceId i)))"

section \<open>Notions and inputs for the statements\<close>

text \<open>
  A clock that knows two dates, an empty candidate, and two candidates that pass every
  check with two and with three warnings.
\<close>

definition clock0 :: clock where
  "clock0 = \<lparr>now = 1705276800000,
     parseDate = (\<lambda>s. if s = ''2024-01-15'' then Some 1705276800000
                       else if s = ''2024-02-14'' then Some 1707868800000 else None),
     toISOString = (\<lambda>t. if t = 1705276800000 then ''2024-01-15'' else ''2024-02-14'')\<rparr>"

definition emptyCandidate :: extracted where
  "emptyCandidate = \<lparr>vendorName = Undefined, vendorEmail = Undefined, invoiceNumber = Undefined,
     lineItems = Undefined, subtotal = Undefined, taxRate = Undefined, taxAmount = Undefined,
     discountAmount = Undefined, shippingAmount = Undefined, totalAmount = Undefined,
     currency = Undefined, invoiceDate = Undefined, dueDate = Undefined, confidenceScore = Undefined\<rparr>"

definition twoWarnings :: extracted where
  "twoWarnings = emptyCandidate\<lparr>vendorName := Val ''Acme'', invoiceNumber := Val ''000'',
     invoiceDate := Val ''2024-01-15'', totalAmount := Val 2000, taxRate := Val 10\<rparr>"

definition threeWarnings :: extracted where
  "threeWarnings = twoWarnings\<lparr>taxRate := Undefined\<rparr>"




text \<open>
  Line items: 0 x 10 against 25; 1 x 0.004 against 0.0149, which differ by more than
  0.01 before rounding only; 2 x 10 against 25; 1 x 20.01 against 20 and 1 x 10.01
  against 10, one cent apart each, on either side of the tolerance in double arithmetic;
  1 x 1.005 against 1.02, where the product times 100 lies just below 100.5; and 1 x 0.006
  against 0.03, where the product rounds up to 0.01.
\<close>

definition lineItem :: "rat \<Rightarrow> rat \<Rightarrow> rat \<Rightarrow> line_item" where
  "lineItem q p a = \<lparr>description = Val ''Item'', quantity = Val (fl q), unitPrice = Val (fl p),
     amount = Val (fl a), confidence = Val 1\<rparr>"

definition zeroQuantityItem :: line_item where
  "zeroQuantityItem = lineItem 0 10 25"


definition mismatchItem :: line_item where
  "mismatchItem = lineItem 2 10 25"

definition centAboveItem :: line_item where
  "centAboveItem = lineItem 1 (2001 / 100) 20"

definition centBelowItem :: line_item where
  "centBelowItem = lineItem 1 (1001 / 100) 10"

definition halfCentItem :: line_item where
  "halfCentItem = lineItem 1 (1005 / 1000) (102 / 100)"

definition roundUpItem :: line_item where
  "roundUpItem = lineItem 1 (6 / 1000) (3 / 100)"

text \<open>Candidates that pass every other check, with some of these items.\<close>

definition withItems :: "line_item list \<Rightarrow> extracted" where
  "withItems items = emptyCandidate\<lparr>vendorName := Val ''Acme'', invoiceNumber := Val ''INV-1'',
     invoiceDate := Val ''2024-01-15'', totalAmount := Val (calculatedSubtotal items),
     lineItems := Val items\<rparr>"



definition boundary :: extracted where
  "boundary = withItems [mismatchItem, centAboveItem, centBelowItem, halfCentItem, roundUpItem,
     zeroQuantityItem]"

text \<open>
  A candidate for which the extractor reports an overall confidence of 0.9 (four of the
  five important fields are present, there are no line items), and a job record as
  submission creates it.
\<close>

definition scored :: extracted where
  "scored = twoWarnings\<lparr>confidenceScore := Val (9 / 10)\<rparr>"

text \<open>
  The components of the base confidence in the words of the statements below: the
  fraction of the five important fields present (line items count when the field holds
  an array, an empty one included), and the mean of the confidence values of the line
  items, a missing value counting as zero.
\<close>

definition present :: "bool \<Rightarrow> rat" where
  "present b = (if b then 1 else 0)"

definition importantFieldsFraction :: "extracted \<Rightarrow> rat" where
  "importantFieldsFraction d =
     (present (case vendorName d of Val s \<Rightarrow> s \<noteq> [] | _ \<Rightarrow> False)
      + present (case invoiceNumber d of Val s \<Rightarrow> s \<noteq> [] | _ \<Rightarrow> False)
      + present (case invoiceDate d of Val s \<Rightarrow> s \<noteq> [] | _ \<Rightarrow> False)
      + present (case totalAmount d of Val r \<Rightarrow> r \<noteq> 0 | _ \<Rightarrow> False)
      + present (case lineItems d of Val items \<Rightarrow> True | _ \<Rightarrow> False)) / 5"

definition meanItemConfidence :: "line_item list \<Rightarrow> rat" where
  "meanItemConfidence items =
     sum_list (map (\<lambda>item. case confidence item of Val x \<Rightarrow> x | _ \<Rightarrow> 0) items) / of_nat (length items)"

text \<open>
  The equal-weight average of the components that apply when no overall confidence is
  used: the fraction of fields alone, or with the mean of the item confidences when there
  is at least one line item.
\<close>

definition componentAverage :: "extracted \<Rightarrow> rat" where
  "componentAverage d =
     (case lineItems d of
        Val items \<Rightarrow>
          if items \<noteq> [] then (importantFieldsFraction d + meanItemConfidence items) / 2
          else importantFieldsFraction d
      | _ \<Rightarrow> importantFieldsFraction d)"

text \<open>
  A candidate with all five important fields and two line items of confidence 0.8 and
  0.6, and one whose only field is an empty list of line items.
\<close>

definition itemised :: extracted where
  "itemised = twoWarnings\<lparr>lineItems :=
     Val [\<lparr>description = Val ''A'', quantity = Val 1, unitPrice = Val 1500, amount = Val 1500,
            confidence = Val (8 / 10)\<rparr>,
          \<lparr>description = Val ''B'', quantity = Val 1, unitPrice = Val 500, amount = Val 500,
            confidence = Val (6 / 10)\<rparr>]\<rparr>"

definition emptyItems :: extracted where
  "emptyItems = emptyCandidate\<lparr>lineItems := Val []\<rparr>"

definition job1 :: invoice where
  "job1 = \<lparr>vendorName = Undefined, vendorEmail = Undefined, invoiceNumber = Undefined,
     lineItems = Val [], subtotal = Undefined, taxRate = Undefined, taxAmount = Undefined,
     discountAmount = Undefined, shippingAmount = Undefined, totalAmount = Undefined,
     currency = Val ''INR'', invoiceId = ''job-1'', filePath = ''uploads/a.pdf'',
     status = pending, processingStartedAt = Undefined, processingCompletedAt = Undefined,
     processingTimeMs = Undefined, inv_invoiceDate = Undefined, inv_dueDate = Undefined,
     inv_confidenceScore = Undefined, validationErrors = [], validationWarnings = [],
     isValidated = False, inv_requiresManualReview = False, rawExtractionData = Undefined,
     webhookUrl = Undefined, webhookSent = False, retryCount = Val 0, lastError = Undefined\<rparr>"

text \<open>
  The \<open>k\<close>-th extraction attempt of a run, and what a failed attempt leaves in the trace:
  the call, then the back-off delay unless the attempt was the last.
\<close>

definition extractionAttempt :: "config \<Rightarrow> world \<Rightarrow> int \<Rightarrow> js_error + extracted" where
  "extractionAttempt cfg w k = extractInvoiceData cfg (clk w) (mathRandom w k) (apiOutcome w k)"

definition failedAttemptEvents :: "config \<Rightarrow> int \<Rightarrow> event list" where
  "failedAttemptEvents cfg k =
     ExtractionCall k # (if k < retryAttempts cfg then [Delay (retryDelayMs cfg * k)] else [])"


text \<open>
  The configuration of the source with an API key, a table holding \<open>job1\<close>, and four
  worlds: the model call times out at every attempt; the first call returns malformed
  output and the second a clean candidate; every call returns malformed output; every
  call returns the candidate with three warnings.
\<close>

definition config0 :: config where
  "config0 = \<lparr>apiKey = Val ''sk-test'', maxConcurrent = 10, retryAttempts = 3, retryDelayMs = 1000\<rparr>"

definition db0 :: db where
  "db0 = [''job-1'' \<mapsto> job1]"


definition syntaxError :: js_error where
  "syntaxError = \<lparr>errName = ''SyntaxError'', errMessage = ''Unexpected end of JSON input'',
     errStatus = Undefined, errCode = Undefined, errStatusCode = Undefined\<rparr>"

definition worldOf :: "(int \<Rightarrow> api_outcome) \<Rightarrow> world" where
  "worldOf outcomes = \<lparr>clk = clock0, processDocument = (\<lambda>path. Inr ''INVOICE''),
     apiOutcome = outcomes, mathRandom = (\<lambda>k i. 0), elapsedMs = 1200\<rparr>"


definition malformedOnce :: world where
  "malformedOnce = worldOf (\<lambda>k. if k = 1 then ContentMalformed syntaxError else ContentParsed twoWarnings)"

definition alwaysMalformed :: world where
  "alwaysMalformed = worldOf (\<lambda>k. ContentMalformed syntaxError)"

definition threeWarningsWorld :: world where
  "threeWarningsWorld = worldOf (\<lambda>k. ContentParsed threeWarnings)"

text \<open>
  A configuration with a limit of two, five jobs queued one after the other, and the
  first of them coming to its end.
\<close>

definition config2 :: config where
  "config2 = config0\<lparr>maxConcurrent := 2\<rparr>"

definition fiveJobs :: "action list" where
  "fiveJobs = [Enqueue ''j1'', Enqueue ''j2'', Enqueue ''j3'', Enqueue ''j4'', Enqueue ''j5'']"

text \<open>
  The invariant of the queue: the counter counts the runs in flight, it does not exceed
  the limit, and a job waits only when the limit is reached.
\<close>

definition queueInv :: "config \<Rightarrow> queue_state \<Rightarrow> bool" where
  "queueInv cfg s =
     (activeProcessing s = int (length (inFlight s)) \<and> activeProcessing s \<le> maxConcurrent cfg
      \<and> (processingQueue s \<noteq> [] \<longrightarrow> activeProcessing s = maxConcurrent cfg))"


definition failedJob :: invoice where
  "failedJob = job1\<lparr>status := failed, retryCount := Val 1, lastError := Val ''Request timed out.''\<rparr>"

definition completedJob :: invoice where
  "completedJob = job1\<lparr>status := completed\<rparr>"

text \<open>
  Draws of the random source for one run of the mock generator: the third draw gives a
  subtotal of 10000.02, the draws for the first item give quantity 1 at a unit price of
  500.00, and the draw for the quantity of the second item gives 5.
\<close>

definition draws0 :: "nat \<Rightarrow> rat" where
  "draws0 i = (if i = 2 then 250001 / 2500000 else if i = 8 then 4 / 5 else 0)"

section \<open>Properties\<close>

subsection \<open>The validation engine\<close>

lemmas validation_defs =
  validateInvoice_def validateRequiredFields_def validateCalculations_def validateFormats_def
  validateBusinessRules_def detectAnomalies_def checkInvoiceDate_def checkDueDate_def
  dueBeforeInvoice_def pushErrorIf_def pushWarningIf_def pushError_def pushWarning_def
  missingStr_def missingNum_def noLineItems_def allZeros_def multipleOf100_def
  identicalQuantities_def js_gt_def js_le_def js_lt_def dayMs_def validCurrencies_def

lemma twoWarnings_result:
  "validateInvoice clock0 twoWarnings =
     \<lparr>isValid = True, errors = [], warnings = [InvoiceNumberAllZeros, RoundTotal],
      requiresManualReview = False\<rparr>"
  by (simp add: validation_defs twoWarnings_def emptyCandidate_def clock0_def Let_def)

lemma threeWarnings_result:
  "validateInvoice clock0 threeWarnings =
     \<lparr>isValid = True, errors = [], warnings = [InvoiceNumberAllZeros, RoundTotal, HighAmountNoTax],
      requiresManualReview = True\<rparr>"
  by (simp add: validation_defs threeWarnings_def twoWarnings_def emptyCandidate_def clock0_def Let_def)

text \<open>
  C2. For every candidate, the \<open>requiresManualReview\<close> flag returned by \<open>validateInvoice\<close>
  is true if and only if there is at least one error or there are more than two warnings.
  At the boundary: no error and exactly two warnings give false, no error and three
  warnings give true.
\<close>

theorem validateInvoice_requiresManualReview:
  "(requiresManualReview (validateInvoice c invoice) \<longleftrightarrow>
      length (errors (validateInvoice c invoice)) > 0 \<or> length (warnings (validateInvoice c invoice)) > 2)
   \<and> (length (errors (validateInvoice c invoice)) = 0 \<and> length (warnings (validateInvoice c invoice)) = 2
        \<longrightarrow> \<not> requiresManualReview (validateInvoice c invoice))
   \<and> (length (errors (validateInvoice c invoice)) = 0 \<and> length (warnings (validateInvoice c invoice)) = 3
        \<longrightarrow> requiresManualReview (validateInvoice c invoice))"
  by (simp add: validateInvoice_def Let_def)

theorem validateInvoice_requiresManualReview_witness:
  "length (errors (validateInvoice clock0 twoWarnings)) = 0
   \<and> length (warnings (validateInvoice clock0 twoWarnings)) = 2
   \<and> \<not> requiresManualReview (validateInvoice clock0 twoWarnings)
   \<and> length (errors (validateInvoice clock0 threeWarnings)) = 0
   \<and> length (warnings (validateInvoice clock0 threeWarnings)) = 3
   \<and> requiresManualReview (validateInvoice clock0 threeWarnings)"
proof -
  have two: "length (errors (validateInvoice clock0 twoWarnings)) = 0
      \<and> length (warnings (validateInvoice clock0 twoWarnings)) = 2"
    by (simp add: twoWarnings_result)
  have three: "length (errors (validateInvoice clock0 threeWarnings)) = 0
      \<and> length (warnings (validateInvoice clock0 threeWarnings)) = 3"
    by (simp add: threeWarnings_result)
  from two validateInvoice_requiresManualReview [of clock0 twoWarnings]
  have "\<not> requiresManualReview (validateInvoice clock0 twoWarnings)" by blast
  moreover from three validateInvoice_requiresManualReview [of clock0 threeWarnings]
  have "requiresManualReview (validateInvoice clock0 threeWarnings)" by blast
  ultimately show ?thesis using two three by blast
qed

subsection \<open>Line item arithmetic\<close>

















text \<open>
  The errors of the candidate \<open>boundary\<close>, and the exact values of some doubles: 20.01 and
  20 are more than the double 0.01 apart, 10.01 and 10 less.
\<close>

lemma boundary_errors:
  "errors (validateInvoice clock0 boundary) =
     [LineItemCalcError 1 2 10 20 25,
      LineItemCalcError 2 1 (fl (2001 / 100)) (fl (2001 / 100)) 20,
      LineItemCalcError 4 1 (fl (1005 / 1000)) 1 (fl (102 / 100)),
      LineItemCalcError 5 1 (fl (6 / 1000)) (fl (1 / 100)) (fl (3 / 100))]"
  by code_simp







subsection \<open>Confidence\<close>

lemma persisted_confidence:
  "inv_confidenceScore (updateInvoiceWithExtraction c i d vr)
     = Val (adjustConfidenceScore (baseConfidence d) vr)"
  by (simp add: updateInvoiceWithExtraction_def Let_def)

lemma foldl_plus_sum_list:
  "foldl (\<lambda>sum x. sum + f x) a xs = a + sum_list (map f xs)"
  for a :: rat
  by (induction xs arbitrary: a) (simp_all add: add.assoc)

lemma presentCount_fraction: "of_nat (presentCount d) / 5 = importantFieldsFraction d"
  by (simp add: presentCount_def importantFieldsFraction_def present_def split: js.splits)

lemma orZero_case: "orZero x = (case x of Val r \<Rightarrow> r | _ \<Rightarrow> 0)"
  by (cases x) simp_all

lemma avgConfidence_mean: "avgConfidence items = meanItemConfidence items"
  by (simp add: avgConfidence_def meanItemConfidence_def foldl_plus_sum_list orZero_case)

lemma calculateConfidenceScore_average:
  "\<not> truthy (confidenceScore d) \<Longrightarrow> calculateConfidenceScore d = componentAverage d"
  by (simp add: calculateConfidenceScore_def confidenceScores_def componentAverage_def
      presentCount_fraction avgConfidence_mean split: js.splits)

text \<open>
  C5 (as amended). The base confidence to which the penalty is applied for the persisted
  score is the extractor-reported overall confidence alone when that is present and
  non-zero. Otherwise it is the equal-weight average of (a) the fraction of the five
  important fields present (vendor name, invoice number, invoice date, total amount, line
  items) and, when there is at least one line item, (b) the mean of the confidence values
  of the line items.
\<close>

theorem baseConfidence_value:
  "baseConfidence d =
     (case confidenceScore d of
        Val c \<Rightarrow> if c \<noteq> 0 then c else componentAverage d
      | _ \<Rightarrow> componentAverage d)
   \<and> inv_confidenceScore (updateInvoiceWithExtraction c i d vr)
       = Val (adjustConfidenceScore (baseConfidence d) vr)"
  by (simp add: persisted_confidence baseConfidence_def calculateConfidenceScore_average
      split: js.splits)

lemma scored_result:
  "validateInvoice clock0 scored =
     \<lparr>isValid = True, errors = [], warnings = [InvoiceNumberAllZeros, RoundTotal],
      requiresManualReview = False\<rparr>"
  by code_simp

text \<open>
  C5 as stated fails for a candidate with an overall confidence: with four of the five
  fields present, no line items and a reported confidence of 0.9, the average of the
  components is 0.85, the base confidence is 0.9, and the persisted score is 0.86.
\<close>

theorem baseConfidence_counterexample:
  "confidenceScore scored = Val (9 / 10) \<and> lineItems scored = Undefined
   \<and> (of_nat (presentCount scored) / 5 :: rat) = 4 / 5
   \<and> calculateConfidenceScore scored = (4 / 5 + 9 / 10) / 2
   \<and> baseConfidence scored = 9 / 10
   \<and> baseConfidence scored \<noteq> (4 / 5 + 9 / 10) / 2
   \<and> inv_confidenceScore (updateInvoiceWithExtraction clock0 job1 scored (validateInvoice clock0 scored))
       = Val (9 / 10 - 2 / 50)"
proof -
  have "confidenceScore scored = Val (9 / 10)" "lineItems scored = Undefined"
    by (simp_all add: scored_def twoWarnings_def emptyCandidate_def)
  moreover have "(of_nat (presentCount scored) / 5 :: rat) = 4 / 5" by code_simp
  moreover have "calculateConfidenceScore scored = (4 / 5 + 9 / 10) / 2" by code_simp
  moreover have b: "baseConfidence scored = 9 / 10" by code_simp
  moreover have "adjustConfidenceScore (baseConfidence scored) (validateInvoice clock0 scored)
      = 9 / 10 - 2 / 50"
    unfolding scored_result b by code_simp
  ultimately show ?thesis by (simp add: persisted_confidence)
qed

theorem baseConfidence_value_witness:
  "confidenceScore scored = Val (9 / 10) \<and> baseConfidence scored = 9 / 10
   \<and> confidenceScore twoWarnings = Undefined \<and> lineItems twoWarnings = Undefined
   \<and> baseConfidence twoWarnings = 4 / 5
   \<and> confidenceScore itemised = Undefined \<and> map confidence (case lineItems itemised of Val items \<Rightarrow> items | _ \<Rightarrow> [])
         = [Val (8 / 10), Val (6 / 10)]
   \<and> baseConfidence itemised = (5 / 5 + (8 / 10 + 6 / 10) / 2) / 2
   \<and> confidenceScore emptyItems = Undefined \<and> lineItems emptyItems = Val []
   \<and> baseConfidence emptyItems = 1 / 5
   \<and> inv_confidenceScore (updateInvoiceWithExtraction clock0 job1 itemised (validateInvoice clock0 itemised))
       = Val (17 / 20 - 2 / 50)"
proof -
  have c: "confidenceScore scored = Val (9 / 10)" "confidenceScore twoWarnings = Undefined"
    "lineItems twoWarnings = Undefined" "confidenceScore itemised = Undefined"
    "confidenceScore emptyItems = Undefined" "lineItems emptyItems = Val []"
    by (simp_all add: scored_def twoWarnings_def itemised_def emptyItems_def emptyCandidate_def)
  have m: "map confidence (case lineItems itemised of Val items \<Rightarrow> items | _ \<Rightarrow> [])
         = [Val (8 / 10), Val (6 / 10)]"
    by (simp add: itemised_def twoWarnings_def emptyCandidate_def)
  have a: "componentAverage twoWarnings = 4 / 5"
    "componentAverage itemised = (5 / 5 + (8 / 10 + 6 / 10) / 2) / 2"
    "componentAverage emptyItems = 1 / 5"
    by code_simp+
  have b1: "baseConfidence scored = 9 / 10"
    using baseConfidence_value [of scored] c by simp
  have b2: "baseConfidence twoWarnings = 4 / 5"
    using baseConfidence_value [of twoWarnings] c a by simp
  have b3: "baseConfidence itemised = (5 / 5 + (8 / 10 + 6 / 10) / 2) / 2"
    using baseConfidence_value [of itemised] c a by simp
  have b4: "baseConfidence emptyItems = 1 / 5"
    using baseConfidence_value [of emptyItems] c a by simp
  have v: "adjustConfidenceScore (17 / 20) (validateInvoice clock0 itemised) = 17 / 20 - 2 / 50"
    by code_simp
  have b3': "baseConfidence itemised = 17 / 20" using b3 by simp
  have p: "inv_confidenceScore (updateInvoiceWithExtraction clock0 job1 itemised (validateInvoice clock0 itemised))
       = Val (17 / 20 - 2 / 50)"
    using baseConfidence_value [of itemised clock0 job1 "validateInvoice clock0 itemised"]
    by (simp only: b3' v)
  from c m b1 b2 b3 b4 p show ?thesis by blast
qed

text \<open>
  C6. For every base confidence and every validation result with E errors and W warnings,
  the adjusted confidence is max(0, min(1, base - 0.1 * E - 0.02 * W)); the persisted
  confidence score therefore lies in [0, 1] whatever the penalty. Five errors on a base
  of 0.3 give 0.
\<close>

theorem adjustConfidenceScore_clamped:
  "adjustConfidenceScore base vr =
     max 0 (min 1 (base - (1 / 10) * of_nat (length (errors vr)) - (1 / 50) * of_nat (length (warnings vr))))
   \<and> 0 \<le> adjustConfidenceScore base vr \<and> adjustConfidenceScore base vr \<le> 1
   \<and> (\<exists>x. inv_confidenceScore (updateInvoiceWithExtraction c i d vr) = Val x \<and> 0 \<le> x \<and> x \<le> 1)"
  by (simp add: persisted_confidence) (simp add: adjustConfidenceScore_def Let_def algebra_simps)

lemma emptyCandidate_errors: "length (errors (validateInvoice clock0 emptyCandidate)) = 5"
  by code_simp

theorem adjustConfidenceScore_clamped_witness:
  "length (errors (validateInvoice clock0 emptyCandidate)) = 5
   \<and> adjustConfidenceScore (3 / 10) (validateInvoice clock0 emptyCandidate) = 0"
proof -
  have w: "length (warnings (validateInvoice clock0 emptyCandidate)) = 0" by code_simp
  from adjustConfidenceScore_clamped [of "3 / 10" "validateInvoice clock0 emptyCandidate"]
  show ?thesis by (simp add: emptyCandidate_errors w)
qed

subsection \<open>Extraction with retry\<close>

lemma extractWithRetry_from_fail:
  "extractionAttempt cfg w k = Inl e \<Longrightarrow> k \<le> retryAttempts cfg \<Longrightarrow>
     extractWithRetry_from cfg w k lastErr =
       withEvents (failedAttemptEvents cfg k) (extractWithRetry_from cfg w (k + 1) (Some e))"
  by (subst extractWithRetry_from.simps) (simp add: extractionAttempt_def failedAttemptEvents_def)

lemma extractWithRetry_from_ok:
  "extractionAttempt cfg w k = Inr x \<Longrightarrow> k \<le> retryAttempts cfg \<Longrightarrow>
     extractWithRetry_from cfg w k lastErr = (Inr x, [ExtractionCall k])"
  by (subst extractWithRetry_from.simps) (simp add: extractionAttempt_def)

lemma extractWithRetry_from_done:
  "retryAttempts cfg < k \<Longrightarrow> extractWithRetry_from cfg w k lastErr = (Inl lastErr, [])"
  by (subst extractWithRetry_from.simps) simp

lemma extractWithRetry_from_all_fail:
  assumes "\<forall>j. k \<le> j \<and> j \<le> retryAttempts cfg \<longrightarrow> extractionAttempt cfg w j = Inl (err j)"
  shows "extractWithRetry_from cfg w k lastErr =
           (Inl (if k \<le> retryAttempts cfg then Some (err (retryAttempts cfg)) else lastErr),
            concat (map (failedAttemptEvents cfg) [k..retryAttempts cfg]))"
  using assms
proof (induction cfg w k lastErr rule: extractWithRetry_from.induct)
  case (1 cfg w attempt lastErr)
  show ?case
  proof (cases "attempt \<le> retryAttempts cfg")
    case False
    then show ?thesis by (simp add: extractWithRetry_from_done)
  next
    case True
    with "1.prems" have a: "extractionAttempt cfg w attempt = Inl (err attempt)" by simp
    then have a': "extractInvoiceData cfg (clk w) (mathRandom w attempt) (apiOutcome w attempt)
        = Inl (err attempt)" by (simp add: extractionAttempt_def)
    have "\<forall>j. attempt + 1 \<le> j \<and> j \<le> retryAttempts cfg \<longrightarrow> extractionAttempt cfg w j = Inl (err j)"
      using "1.prems" by simp
    from "1.IH" [OF True a' this]
    have ih: "extractWithRetry_from cfg w (attempt + 1) (Some (err attempt)) =
        (Inl (if attempt + 1 \<le> retryAttempts cfg then Some (err (retryAttempts cfg)) else Some (err attempt)),
         concat (map (failedAttemptEvents cfg) [attempt + 1..retryAttempts cfg]))" .
    have last: "(if attempt + 1 \<le> retryAttempts cfg then Some (err (retryAttempts cfg)) else Some (err attempt))
        = Some (err (retryAttempts cfg))"
      using True by (cases "attempt = retryAttempts cfg") auto
    have up: "[attempt..retryAttempts cfg] = attempt # [attempt + 1..retryAttempts cfg]"
      using True by (simp add: upto_rec1)
    show ?thesis
      using True by (simp add: extractWithRetry_from_fail [OF a True] ih last up withEvents_def)
  qed
qed



lemma processInvoice_try_thrown:
  assumes "d invId = Some i" and "processDocument w (filePath i) = Inr doc"
    and "extractWithRetry cfg w = (Inl (Some e), evs)"
  shows "processInvoice_try cfg w d invId =
           (Inl e,
            d(invId \<mapsto> i\<lparr>processingStartedAt := Val (now (clk w)), status := failed,
                          lastError := Val (errMessage e),
                          retryCount := Val (orZeroInt (retryCount i) + 1),
                          processingTimeMs := Val (elapsedMs w)\<rparr>),
            evs @ (if truthyStr (webhookUrl i)
                   then [Webhook (strOf (webhookUrl i)) (InvoiceFailed (invoiceId i) (errMessage e))]
                   else []))"
  using assms by (simp add: processInvoice_try_def processInvoice_catch_def Let_def)





subsection \<open>Final status\<close>

lemma processInvoice_try_extracted:
  assumes "d invId = Some i" and "processDocument w (filePath i) = Inr doc"
    and "extractWithRetry cfg w = (Inr x, evs)"
  shows "processInvoice_try cfg w d invId =
           processExtracted w
             (d(invId \<mapsto> i\<lparr>status := processing, processingStartedAt := Val (now (clk w))\<rparr>))
             invId (i\<lparr>status := processing, processingStartedAt := Val (now (clk w))\<rparr>) x evs"
  using assms by (simp add: processInvoice_try_def Let_def)

lemma updateInvoiceWithExtraction_fields:
  "validationErrors (updateInvoiceWithExtraction c i x vr) = errors vr"
  "validationWarnings (updateInvoiceWithExtraction c i x vr) = warnings vr"
  "inv_requiresManualReview (updateInvoiceWithExtraction c i x vr) = requiresManualReview vr"
  "webhookUrl (updateInvoiceWithExtraction c i x vr) = webhookUrl i"
  "retryCount (updateInvoiceWithExtraction c i x vr) = retryCount i"
  by (simp_all add: updateInvoiceWithExtraction_def copyMappedFields_def Let_def)

lemma processExtracted_row:
  "\<exists>i'. fst (snd (processExtracted w d invId i x evs)) invId = Some i'
     \<and> status i' = finalStatus (validateInvoice (clk w) x)
     \<and> validationErrors i' = errors (validateInvoice (clk w) x)
     \<and> validationWarnings i' = warnings (validateInvoice (clk w) x)
     \<and> inv_requiresManualReview i' = requiresManualReview (validateInvoice (clk w) x)
     \<and> retryCount i' = retryCount i"
  by (simp add: processExtracted_def Let_def updateInvoiceWithExtraction_fields)

text \<open>
  C1 (as amended). For every job whose extraction succeeds, the final persisted status is
  \<open>review_required\<close> exactly when validation produced at least one error, and \<open>completed\<close>
  otherwise. The persisted \<open>requiresManualReview\<close> flag is true exactly when validation
  produced at least one error or more than two warnings.
\<close>

theorem final_status_after_extraction:
  assumes "d invId = Some i" and "processDocument w (filePath i) = Inr doc"
    and "extractWithRetry cfg w = (Inr x, evs)"
  shows "\<exists>i'. fst (snd (processInvoice_try cfg w d invId)) invId = Some i'
     \<and> (status i' = review_required \<longleftrightarrow> length (errors (validateInvoice (clk w) x)) > 0)
     \<and> (status i' = completed \<longleftrightarrow> length (errors (validateInvoice (clk w) x)) = 0)
     \<and> (inv_requiresManualReview i' \<longleftrightarrow>
           length (errors (validateInvoice (clk w) x)) > 0
           \<or> length (warnings (validateInvoice (clk w) x)) > 2)
     \<and> validationErrors i' = errors (validateInvoice (clk w) x)
     \<and> validationWarnings i' = warnings (validateInvoice (clk w) x)"
proof -
  obtain i' where i': "fst (snd (processInvoice_try cfg w d invId)) invId = Some i'"
      "status i' = finalStatus (validateInvoice (clk w) x)"
      "validationErrors i' = errors (validateInvoice (clk w) x)"
      "validationWarnings i' = warnings (validateInvoice (clk w) x)"
      "inv_requiresManualReview i' = requiresManualReview (validateInvoice (clk w) x)"
    unfolding processInvoice_try_extracted [where d = d and invId = invId, OF assms]
    using processExtracted_row by blast
  have "requiresManualReview (validateInvoice (clk w) x) \<longleftrightarrow>
      length (errors (validateInvoice (clk w) x)) > 0 \<or> length (warnings (validateInvoice (clk w) x)) > 2"
    by (simp add: validateInvoice_def Let_def)
  with i' show ?thesis by (auto simp: finalStatus_def)
qed

lemma key_config0: "truthyStr (apiKey config0)" "apiKey config0 \<noteq> Val ''your_openai_api_key_here''"
  by (simp_all add: config0_def)

lemma threeWarningsWorld_attempt: "extractionAttempt config0 threeWarningsWorld k = Inr threeWarnings"
  by (simp add: extractionAttempt_def extractInvoiceData_def key_config0 threeWarningsWorld_def worldOf_def)

lemma threeWarningsWorld_extract:
  "extractWithRetry config0 threeWarningsWorld = (Inr threeWarnings, [ExtractionCall 1])"
  unfolding extractWithRetry_def
  by (rule extractWithRetry_from_ok [OF threeWarningsWorld_attempt]) (simp add: config0_def)

lemma threeWarningsWorld_admitted:
  "db0 ''job-1'' = Some job1" "processDocument threeWarningsWorld (filePath job1) = Inr ''INVOICE''"
  "clk threeWarningsWorld = clock0"
  by (simp_all add: db0_def threeWarningsWorld_def worldOf_def)

text \<open>
  C1 as stated fails: a job whose candidate has no error and three warnings ends in status
  \<open>completed\<close>.
\<close>

theorem final_status_counterexample:
  "extractWithRetry config0 threeWarningsWorld = (Inr threeWarnings, [ExtractionCall 1])
   \<and> length (errors (validateInvoice clock0 threeWarnings)) = 0
   \<and> length (warnings (validateInvoice clock0 threeWarnings)) = 3
   \<and> map_option status (fst (snd (processInvoice_try config0 threeWarningsWorld db0 ''job-1'')) ''job-1'')
       = Some completed"
proof -
  have "processInvoice_try config0 threeWarningsWorld db0 ''job-1'' =
      processExtracted threeWarningsWorld
        (db0(''job-1'' \<mapsto> job1\<lparr>status := processing, processingStartedAt := Val (now (clk threeWarningsWorld))\<rparr>))
        ''job-1'' (job1\<lparr>status := processing, processingStartedAt := Val (now (clk threeWarningsWorld))\<rparr>)
        threeWarnings [ExtractionCall 1]"
    by (rule processInvoice_try_extracted [where d = db0 and invId = "''job-1''",
          OF threeWarningsWorld_admitted(1,2) threeWarningsWorld_extract])
  moreover have "finalStatus (validateInvoice clock0 threeWarnings) = completed"
    by (simp add: threeWarnings_result finalStatus_def)
  ultimately have "map_option status
      (fst (snd (processInvoice_try config0 threeWarningsWorld db0 ''job-1'')) ''job-1'') = Some completed"
    using processExtracted_row [of threeWarningsWorld _ "''job-1''" _ threeWarnings "[ExtractionCall 1]"]
    by (auto simp: threeWarningsWorld_admitted)
  then show ?thesis by (simp add: threeWarningsWorld_extract threeWarnings_result)
qed

theorem final_status_after_extraction_witness:
  "db0 ''job-1'' = Some job1
   \<and> processDocument threeWarningsWorld (filePath job1) = Inr ''INVOICE''
   \<and> extractWithRetry config0 threeWarningsWorld = (Inr threeWarnings, [ExtractionCall 1])
   \<and> map_option status (fst (snd (processInvoice_try config0 threeWarningsWorld db0 ''job-1'')) ''job-1'')
       = Some completed
   \<and> map_option inv_requiresManualReview
        (fst (snd (processInvoice_try config0 threeWarningsWorld db0 ''job-1'')) ''job-1'') = Some True"
proof -
  have e: "length (errors (validateInvoice (clk threeWarningsWorld) threeWarnings)) = 0"
      "length (warnings (validateInvoice (clk threeWarningsWorld) threeWarnings)) = 3"
    by (simp_all add: threeWarningsWorld_admitted threeWarnings_result)
  from final_status_after_extraction [where d = db0 and invId = "''job-1''",
      OF threeWarningsWorld_admitted(1,2) threeWarningsWorld_extract]
  show ?thesis
    using e by (auto simp: threeWarningsWorld_admitted threeWarningsWorld_extract)
qed

subsection \<open>Malformed extraction output\<close>

lemma extractWithRetry_from_some_ok:
  assumes "k \<le> j" and "j \<le> retryAttempts cfg" and "extractionAttempt cfg w j = Inr x"
  shows "\<exists>x' evs. extractWithRetry_from cfg w k lastErr = (Inr x', evs)"
  using assms
proof (induction cfg w k lastErr rule: extractWithRetry_from.induct)
  case (1 cfg w attempt lastErr)
  then have le: "attempt \<le> retryAttempts cfg" by simp
  show ?case
  proof (cases "extractionAttempt cfg w attempt")
    case (Inr y)
    then show ?thesis using extractWithRetry_from_ok [OF Inr le] by blast
  next
    case (Inl e)
    then have e': "extractInvoiceData cfg (clk w) (mathRandom w attempt) (apiOutcome w attempt) = Inl e"
      by (simp add: extractionAttempt_def)
    from Inl "1.prems" have "attempt \<noteq> j" by auto
    with "1.prems" have "attempt + 1 \<le> j" by simp
    from "1.IH" [OF le e' this "1.prems"(2,3)]
    obtain x' evs where "extractWithRetry_from cfg w (attempt + 1) (Some e) = (Inr x', evs)" by blast
    then show ?thesis
      by (simp add: extractWithRetry_from_fail [OF Inl le] withEvents_def)
  qed
qed

lemma processInvoice_try_failed_iff:
  assumes admitted: "d invId = Some i" "processDocument w (filePath i) = Inr doc"
    and attempts: "1 \<le> retryAttempts cfg"
  shows "\<exists>i'. fst (snd (processInvoice_try cfg w d invId)) invId = Some i'
     \<and> (status i' = failed \<longleftrightarrow>
           (\<forall>j. 1 \<le> j \<and> j \<le> retryAttempts cfg \<longrightarrow> (\<exists>e'. extractionAttempt cfg w j = Inl e')))
     \<and> (status i' = failed \<longrightarrow>
           (\<forall>e. extractionAttempt cfg w (retryAttempts cfg) = Inl e \<longrightarrow> lastError i' = Val (errMessage e)))"
proof (cases "\<forall>j. 1 \<le> j \<and> j \<le> retryAttempts cfg \<longrightarrow> (\<exists>e'. extractionAttempt cfg w j = Inl e')")
  case True
  then have "\<forall>j. \<exists>e'. 1 \<le> j \<and> j \<le> retryAttempts cfg \<longrightarrow> extractionAttempt cfg w j = Inl e'"
    by blast
  then obtain err where err:
    "\<forall>j. 1 \<le> j \<and> j \<le> retryAttempts cfg \<longrightarrow> extractionAttempt cfg w j = Inl (err j)"
    by metis
  have r: "extractWithRetry cfg w =
      (Inl (Some (err (retryAttempts cfg))), concat (map (failedAttemptEvents cfg) [1..retryAttempts cfg]))"
    unfolding extractWithRetry_def
    using extractWithRetry_from_all_fail [OF err, of None] attempts by simp
  from err attempts have last: "extractionAttempt cfg w (retryAttempts cfg) = Inl (err (retryAttempts cfg))"
    by simp
  show ?thesis
    using True last
    by (simp add: processInvoice_try_thrown [where d = d and invId = invId, OF admitted r])
next
  case False
  then obtain j x where j: "1 \<le> j" "j \<le> retryAttempts cfg" "extractionAttempt cfg w j = Inr x"
    by (metis sum.exhaust)
  from extractWithRetry_from_some_ok [OF j, of None]
  obtain x' evs where r: "extractWithRetry cfg w = (Inr x', evs)"
    unfolding extractWithRetry_def by blast
  obtain i' where i': "fst (snd (processInvoice_try cfg w d invId)) invId = Some i'"
      "status i' = finalStatus (validateInvoice (clk w) x')"
    unfolding processInvoice_try_extracted [where d = d and invId = invId, OF admitted r]
    using processExtracted_row by blast
  have "status i' \<noteq> failed" using i'(2) by (simp add: finalStatus_def)
  with i'(1) False show ?thesis by simp
qed

text \<open>
  C4 (as amended). An extraction attempt that returns malformed output is handled like an
  attempt whose call was rejected with the same error. Unless the error counts as an
  authentication failure, the attempt fails; when it is not the last attempt the loop
  waits \<open>attempt * retryDelayMs\<close> and makes the next attempt, and when it is the last the
  error is thrown. The job of an admitted run surfaces as failed exactly when every one
  of the \<open>retryAttempts\<close> attempts fails, the last one included; when the malformed
  output is that of the last attempt, its message is the \<open>lastError\<close> of the failed job.
\<close>

theorem malformed_output_is_retried:
  assumes key: "truthyStr (apiKey cfg)" "apiKey cfg \<noteq> Val ''your_openai_api_key_here''"
    and malformed: "apiOutcome w k = ContentMalformed e"
    and noAuth: "\<not> isAuthFailure e"
  shows "extractionAttempt cfg w k = Inl e
     \<and> extractInvoiceData cfg c r (ContentMalformed e) = extractInvoiceData cfg c r (ApiRejected e)
     \<and> (k < retryAttempts cfg \<longrightarrow>
           extractWithRetry_from cfg w k lastErr =
             withEvents [ExtractionCall k, Delay (retryDelayMs cfg * k)]
               (extractWithRetry_from cfg w (k + 1) (Some e)))
     \<and> (k = retryAttempts cfg \<longrightarrow>
           extractWithRetry_from cfg w k lastErr = (Inl (Some e), [ExtractionCall k]))
     \<and> (d invId = Some i \<and> processDocument w (filePath i) = Inr doc \<and> 1 \<le> retryAttempts cfg \<longrightarrow>
           (\<exists>i'. fst (snd (processInvoice_try cfg w d invId)) invId = Some i'
              \<and> (status i' = failed \<longleftrightarrow>
                    (\<forall>j. 1 \<le> j \<and> j \<le> retryAttempts cfg \<longrightarrow> (\<exists>e'. extractionAttempt cfg w j = Inl e')))
              \<and> (status i' = failed \<and> k = retryAttempts cfg \<longrightarrow> lastError i' = Val (errMessage e))))"
proof -
  have f1: "extractionAttempt cfg w k = Inl e"
    using key malformed noAuth
    by (simp add: extractionAttempt_def extractInvoiceData_def extractionFailed_def)
  have f2: "extractInvoiceData cfg c r (ContentMalformed e) = extractInvoiceData cfg c r (ApiRejected e)"
    by (simp add: extractInvoiceData_def)
  have f3: "extractWithRetry_from cfg w k lastErr =
      withEvents [ExtractionCall k, Delay (retryDelayMs cfg * k)]
        (extractWithRetry_from cfg w (k + 1) (Some e))" if "k < retryAttempts cfg"
    using that extractWithRetry_from_fail [OF f1, of lastErr] by (simp add: failedAttemptEvents_def)
  have f4: "extractWithRetry_from cfg w k lastErr = (Inl (Some e), [ExtractionCall k])"
    if "k = retryAttempts cfg"
    using that extractWithRetry_from_fail [OF f1, of lastErr]
    by (simp add: failedAttemptEvents_def extractWithRetry_from_done withEvents_def)
  have f5: "\<exists>i'. fst (snd (processInvoice_try cfg w d invId)) invId = Some i'
      \<and> (status i' = failed \<longleftrightarrow>
            (\<forall>j. 1 \<le> j \<and> j \<le> retryAttempts cfg \<longrightarrow> (\<exists>e'. extractionAttempt cfg w j = Inl e')))
      \<and> (status i' = failed \<and> k = retryAttempts cfg \<longrightarrow> lastError i' = Val (errMessage e))"
    if "d invId = Some i" "processDocument w (filePath i) = Inr doc" "1 \<le> retryAttempts cfg"
    using processInvoice_try_failed_iff [where d = d and invId = invId, OF that] f1 by blast
  from f1 f2 f3 f4 f5 show ?thesis by blast
qed

lemma syntaxError_not_auth: "\<not> isAuthFailure syntaxError"
  by code_simp

lemma malformedOnce_attempts:
  "extractionAttempt config0 malformedOnce 1 = Inl syntaxError"
  "extractionAttempt config0 malformedOnce 2 = Inr twoWarnings"
  by (simp_all add: extractionAttempt_def extractInvoiceData_def extractionFailed_def key_config0
      malformedOnce_def worldOf_def syntaxError_not_auth)

lemma malformedOnce_extract:
  "extractWithRetry config0 malformedOnce =
     (Inr twoWarnings, [ExtractionCall 1, Delay 1000, ExtractionCall 2])"
proof -
  have "extractWithRetry_from config0 malformedOnce 2 (Some syntaxError) = (Inr twoWarnings, [ExtractionCall 2])"
    by (rule extractWithRetry_from_ok [OF malformedOnce_attempts(2)]) (simp add: config0_def)
  moreover have "extractWithRetry_from config0 malformedOnce 1 None =
      withEvents (failedAttemptEvents config0 1)
        (extractWithRetry_from config0 malformedOnce (1 + 1) (Some syntaxError))"
    by (rule extractWithRetry_from_fail [OF malformedOnce_attempts(1)]) (simp add: config0_def)
  ultimately show ?thesis
    by (simp add: extractWithRetry_def withEvents_def failedAttemptEvents_def config0_def)
qed

lemma malformedOnce_admitted:
  "processDocument malformedOnce (filePath job1) = Inr ''INVOICE''" "clk malformedOnce = clock0"
  "apiOutcome malformedOnce 1 = ContentMalformed syntaxError"
  by (simp_all add: malformedOnce_def worldOf_def)

text \<open>
  C4 as stated fails: after malformed output at the first attempt the loop waits and
  makes a second attempt, and when that succeeds the job ends in status \<open>completed\<close>.
\<close>

theorem malformed_output_counterexample:
  "apiOutcome malformedOnce 1 = ContentMalformed syntaxError
   \<and> extractWithRetry config0 malformedOnce =
       (Inr twoWarnings, [ExtractionCall 1, Delay 1000, ExtractionCall 2])
   \<and> map_option status (fst (snd (processInvoice_try config0 malformedOnce db0 ''job-1'')) ''job-1'')
       = Some completed"
proof -
  have "processInvoice_try config0 malformedOnce db0 ''job-1'' =
      processExtracted malformedOnce
        (db0(''job-1'' \<mapsto> job1\<lparr>status := processing, processingStartedAt := Val (now (clk malformedOnce))\<rparr>))
        ''job-1'' (job1\<lparr>status := processing, processingStartedAt := Val (now (clk malformedOnce))\<rparr>)
        twoWarnings [ExtractionCall 1, Delay 1000, ExtractionCall 2]"
    by (rule processInvoice_try_extracted [where d = db0 and invId = "''job-1''",
          OF threeWarningsWorld_admitted(1) malformedOnce_admitted(1) malformedOnce_extract])
  moreover have "finalStatus (validateInvoice clock0 twoWarnings) = completed"
    by (simp add: twoWarnings_result finalStatus_def)
  ultimately have "map_option status
      (fst (snd (processInvoice_try config0 malformedOnce db0 ''job-1'')) ''job-1'') = Some completed"
    using processExtracted_row [of malformedOnce _ "''job-1''" _ twoWarnings
        "[ExtractionCall 1, Delay 1000, ExtractionCall 2]"]
    by (auto simp: malformedOnce_admitted)
  then show ?thesis by (simp add: malformedOnce_extract malformedOnce_admitted)
qed

lemma alwaysMalformed_facts:
  "apiOutcome alwaysMalformed k = ContentMalformed syntaxError"
  "processDocument alwaysMalformed (filePath job1) = Inr ''INVOICE''"
  by (simp_all add: alwaysMalformed_def worldOf_def)

lemma alwaysMalformed_attempt: "extractionAttempt config0 alwaysMalformed k = Inl syntaxError"
  by (simp add: extractionAttempt_def extractInvoiceData_def extractionFailed_def key_config0
      alwaysMalformed_def worldOf_def syntaxError_not_auth)

theorem malformed_output_is_retried_witness:
  "truthyStr (apiKey config0) \<and> apiKey config0 \<noteq> Val ''your_openai_api_key_here''
   \<and> apiOutcome malformedOnce 1 = ContentMalformed syntaxError \<and> \<not> isAuthFailure syntaxError
   \<and> (1::int) < retryAttempts config0
   \<and> extractWithRetry_from config0 malformedOnce 1 None =
        withEvents [ExtractionCall 1, Delay 1000]
          (extractWithRetry_from config0 malformedOnce 2 (Some syntaxError))
   \<and> extractionAttempt config0 malformedOnce 2 = Inr twoWarnings
   \<and> map_option status (fst (snd (processInvoice_try config0 malformedOnce db0 ''job-1'')) ''job-1'')
       \<noteq> Some failed
   \<and> apiOutcome alwaysMalformed 3 = ContentMalformed syntaxError \<and> retryAttempts config0 = 3
   \<and> extractWithRetry_from config0 alwaysMalformed 3 (Some syntaxError)
       = (Inl (Some syntaxError), [ExtractionCall 3])
   \<and> map_option status (fst (snd (processInvoice_try config0 alwaysMalformed db0 ''job-1'')) ''job-1'')
       = Some failed
   \<and> map_option lastError (fst (snd (processInvoice_try config0 alwaysMalformed db0 ''job-1'')) ''job-1'')
       = Some (Val ''Unexpected end of JSON input'')"
proof -
  have n: "(1::int) < retryAttempts config0" "retryDelayMs config0 = 1000" "retryAttempts config0 = 3"
    "(1::int) \<le> retryAttempts config0"
    by (simp_all add: config0_def)
  have b: "db0 ''job-1'' = Some job1" by (simp add: db0_def)
  have msg: "errMessage syntaxError = ''Unexpected end of JSON input''" by (simp add: syntaxError_def)
  note once = malformed_output_is_retried [OF key_config0 malformedOnce_admitted(3) syntaxError_not_auth,
      of clock0 "\<lambda>i. 0" None db0 "''job-1''" job1 "''INVOICE''"]
  note always = malformed_output_is_retried [OF key_config0 alwaysMalformed_facts(1) syntaxError_not_auth,
      of 3 clock0 "\<lambda>i. 0" "Some syntaxError" db0 "''job-1''" job1 "''INVOICE''"]
  have w1: "extractWithRetry_from config0 malformedOnce 1 None =
        withEvents [ExtractionCall 1, Delay 1000]
          (extractWithRetry_from config0 malformedOnce 2 (Some syntaxError))"
    using once n by simp
  have "\<not> (\<forall>j. 1 \<le> j \<and> j \<le> retryAttempts config0
      \<longrightarrow> (\<exists>e'. extractionAttempt config0 malformedOnce j = Inl e'))"
    using malformedOnce_attempts(2) n by (auto intro!: exI [of _ 2])
  with once b malformedOnce_admitted(1) n(4)
  have w2: "map_option status (fst (snd (processInvoice_try config0 malformedOnce db0 ''job-1'')) ''job-1'')
       \<noteq> Some failed"
    by auto
  have w3: "extractWithRetry_from config0 alwaysMalformed 3 (Some syntaxError)
       = (Inl (Some syntaxError), [ExtractionCall 3])"
    using always n by simp
  have "\<forall>j. 1 \<le> j \<and> j \<le> retryAttempts config0
      \<longrightarrow> (\<exists>e'. extractionAttempt config0 alwaysMalformed j = Inl e')"
    by (simp add: alwaysMalformed_attempt)
  with always b alwaysMalformed_facts(2) n(3,4)
  have w4: "map_option status (fst (snd (processInvoice_try config0 alwaysMalformed db0 ''job-1'')) ''job-1'')
       = Some failed
     \<and> map_option lastError (fst (snd (processInvoice_try config0 alwaysMalformed db0 ''job-1'')) ''job-1'')
       = Some (Val ''Unexpected end of JSON input'')"
    by (auto simp: msg)
  from w1 w2 w3 w4 n key_config0 malformedOnce_admitted(3) syntaxError_not_auth
    malformedOnce_attempts(2) alwaysMalformed_facts(1)
  show ?thesis by blast
qed

subsection \<open>The concurrency limit\<close>

lemma processQueue_admits:
  "processQueue cfg s =
     s\<lparr>processingQueue := drop (admitted cfg s) (processingQueue s),
       activeProcessing := activeProcessing s + int (admitted cfg s),
       inFlight := inFlight s @ take (admitted cfg s) (processingQueue s)\<rparr>"
proof (induction cfg s rule: processQueue.induct)
  case (1 cfg s)
  show ?case
  proof (cases "length (processingQueue s) > 0 \<and> activeProcessing s < maxConcurrent cfg")
    case False
    then have "admitted cfg s = 0" by (auto simp: admitted_def)
    with False show ?thesis by (subst processQueue.simps) auto
  next
    case True
    let ?s' = "processInvoice_start (s\<lparr>processingQueue := tl (processingQueue s)\<rparr>) (hd (processingQueue s))"
    from True obtain x xs where q: "processingQueue s = x # xs" by (cases "processingQueue s") auto
    have k: "admitted cfg s = Suc (admitted cfg ?s')"
      using True q by (auto simp: admitted_def processInvoice_start_def min_def)
    have "processQueue cfg s = processQueue cfg ?s'"
      using True by (subst processQueue.simps) simp
    also have "\<dots> = ?s'\<lparr>processingQueue := drop (admitted cfg ?s') (processingQueue ?s'),
        activeProcessing := activeProcessing ?s' + int (admitted cfg ?s'),
        inFlight := inFlight ?s' @ take (admitted cfg ?s') (processingQueue ?s')\<rparr>"
      using "1.IH" [OF True] .
    also have "\<dots> = s\<lparr>processingQueue := drop (admitted cfg s) (processingQueue s),
        activeProcessing := activeProcessing s + int (admitted cfg s),
        inFlight := inFlight s @ take (admitted cfg s) (processingQueue s)\<rparr>"
      unfolding k using q by (simp add: processInvoice_start_def)
    finally show ?thesis .
  qed
qed

lemma processQueue_inv:
  assumes "activeProcessing s = int (length (inFlight s))" "activeProcessing s \<le> maxConcurrent cfg"
  shows "queueInv cfg (processQueue cfg s)"
  unfolding processQueue_admits queueInv_def using assms
  by (auto simp: admitted_def min_def)

lemma queueInvoice_inv: "queueInv cfg s \<Longrightarrow> queueInv cfg (queueInvoice cfg s invId)"
  unfolding queueInvoice_def by (rule processQueue_inv) (simp_all add: queueInv_def)

lemma length_remove1_int:
  assumes "x \<in> set xs"
  shows "int (length (remove1 x xs)) = int (length xs) - 1"
proof -
  from assms have "0 < length xs" by (rule length_pos_if_in_set)
  moreover from assms have "length (remove1 x xs) = length xs - 1" by (simp add: length_remove1)
  ultimately show ?thesis by linarith
qed

lemma finally_inv:
  "queueInv cfg s \<Longrightarrow> invId \<in> set (inFlight s) \<Longrightarrow> queueInv cfg (processInvoice_finally cfg s invId)"
  unfolding processInvoice_finally_def
  by (rule processQueue_inv) (simp_all add: queueInv_def length_remove1_int)

lemma step_inv: "queueInv cfg s \<Longrightarrow> step cfg s a = Some s' \<Longrightarrow> queueInv cfg s'"
  by (cases a) (auto simp: queueInvoice_inv finally_inv split: if_splits)

lemma run_inv: "queueInv cfg s \<Longrightarrow> run cfg s acts = Some s' \<Longrightarrow> queueInv cfg s'"
proof (induction acts arbitrary: s)
  case Nil
  then show ?case by simp
next
  case (Cons a acts)
  then show ?case by (auto split: option.splits dest: step_inv)
qed

lemma initial_inv: "0 \<le> maxConcurrent cfg \<Longrightarrow> queueInv cfg initialState"
  by (simp add: queueInv_def initialState_def)

lemma queueInvoice_reachable:
  assumes "queueInv cfg s"
  shows "queueInvoice cfg s invId =
     (if activeProcessing s < maxConcurrent cfg
      then s\<lparr>activeProcessing := activeProcessing s + 1, inFlight := inFlight s @ [invId]\<rparr>
      else s\<lparr>processingQueue := processingQueue s @ [invId]\<rparr>)"
proof (cases "activeProcessing s < maxConcurrent cfg")
  case True
  with assms have q: "processingQueue s = []" by (auto simp: queueInv_def)
  have "admitted cfg (s\<lparr>processingQueue := processingQueue s @ [invId]\<rparr>) = 1"
    using True q by (simp add: admitted_def)
  then show ?thesis using True q by (simp add: queueInvoice_def processQueue_admits)
next
  case False
  then have "admitted cfg (s\<lparr>processingQueue := processingQueue s @ [invId]\<rparr>) = 0"
    by (simp add: admitted_def)
  then show ?thesis using False by (simp add: queueInvoice_def processQueue_admits)
qed

lemma finally_reachable:
  assumes "queueInv cfg s" and "invId \<in> set (inFlight s)"
  shows "processInvoice_finally cfg s invId =
     (if processingQueue s = []
      then s\<lparr>activeProcessing := activeProcessing s - 1, inFlight := remove1 invId (inFlight s)\<rparr>
      else s\<lparr>processingQueue := tl (processingQueue s),
             inFlight := remove1 invId (inFlight s) @ [hd (processingQueue s)]\<rparr>)"
proof (cases "processingQueue s")
  case Nil
  then have "admitted cfg (s\<lparr>activeProcessing := activeProcessing s - 1,
      inFlight := remove1 invId (inFlight s)\<rparr>) = 0"
    by (simp add: admitted_def)
  then show ?thesis using Nil by (simp add: processInvoice_finally_def processQueue_admits)
next
  case (Cons x xs)
  with assms have "activeProcessing s = maxConcurrent cfg" by (simp add: queueInv_def)
  then have "admitted cfg (s\<lparr>activeProcessing := activeProcessing s - 1,
      inFlight := remove1 invId (inFlight s)\<rparr>) = 1"
    using Cons by (simp add: admitted_def)
  then show ?thesis using Cons by (simp add: processInvoice_finally_def processQueue_admits)
qed

text \<open>
  C9. At every state the service reaches, with a limit that is not negative, the number of
  jobs being processed is the counter \<open>activeProcessing\<close> and never exceeds
  \<open>maxConcurrent\<close>. \<open>processQueue\<close> admits jobs from the head of the queue, in order, as
  many as the limit allows; a job is left waiting only when the limit is reached. The end
  of a run, on success or failure, decrements the counter and admits the job at the head
  of the queue at once. With a limit of two and five jobs queued, two are in flight, and
  the end of one admits exactly one more.
\<close>

theorem concurrency_bound:
  assumes "0 \<le> maxConcurrent cfg" and "run cfg initialState acts = Some s"
  shows "activeProcessing s = int (length (inFlight s))
     \<and> activeProcessing s \<le> maxConcurrent cfg
     \<and> (processingQueue s \<noteq> [] \<longrightarrow> activeProcessing s = maxConcurrent cfg)
     \<and> processQueue cfg t =
         t\<lparr>processingQueue := drop (admitted cfg t) (processingQueue t),
           activeProcessing := activeProcessing t + int (admitted cfg t),
           inFlight := inFlight t @ take (admitted cfg t) (processingQueue t)\<rparr>
     \<and> queueInvoice cfg s new =
         (if activeProcessing s < maxConcurrent cfg
          then s\<lparr>activeProcessing := activeProcessing s + 1, inFlight := inFlight s @ [new]\<rparr>
          else s\<lparr>processingQueue := processingQueue s @ [new]\<rparr>)
     \<and> (finished \<in> set (inFlight s) \<longrightarrow>
          processInvoice_finally cfg s finished =
            (if processingQueue s = []
             then s\<lparr>activeProcessing := activeProcessing s - 1, inFlight := remove1 finished (inFlight s)\<rparr>
             else s\<lparr>processingQueue := tl (processingQueue s),
                    inFlight := remove1 finished (inFlight s) @ [hd (processingQueue s)]\<rparr>))"
proof -
  have i: "queueInv cfg s" using run_inv [OF initial_inv [OF assms(1)] assms(2)] .
  then show ?thesis
    using processQueue_admits [of cfg t] queueInvoice_reachable [OF i, of new] finally_reachable [OF i, of finished]
    unfolding queueInv_def by blast
qed

lemma fiveJobs_run:
  "run config2 initialState fiveJobs =
     Some \<lparr>processingQueue = [''j3'', ''j4'', ''j5''], activeProcessing = 2, inFlight = [''j1'', ''j2'']\<rparr>"
  by code_simp

lemma fiveJobs_finish:
  "run config2 initialState (fiveJobs @ [Finish ''j1'']) =
     Some \<lparr>processingQueue = [''j4'', ''j5''], activeProcessing = 2, inFlight = [''j2'', ''j3'']\<rparr>"
  by code_simp

theorem concurrency_bound_witness:
  "0 \<le> maxConcurrent config2
   \<and> run config2 initialState fiveJobs =
       Some \<lparr>processingQueue = [''j3'', ''j4'', ''j5''], activeProcessing = 2, inFlight = [''j1'', ''j2'']\<rparr>
   \<and> processInvoice_finally config2
        \<lparr>processingQueue = [''j3'', ''j4'', ''j5''], activeProcessing = 2, inFlight = [''j1'', ''j2'']\<rparr> ''j1''
       = \<lparr>processingQueue = [''j4'', ''j5''], activeProcessing = 2, inFlight = [''j2'', ''j3'']\<rparr>"
proof -
  have m: "0 \<le> maxConcurrent config2" by (simp add: config2_def config0_def)
  from concurrency_bound [OF m fiveJobs_run, of _ _ "''j1''"]
  show ?thesis using m fiveJobs_run by simp
qed

subsection \<open>Manual retry\<close>

lemma queueInvoice_enters:
  "invId \<in> set (processingQueue (queueInvoice cfg s invId)) \<union> set (inFlight (queueInvoice cfg s invId))"
proof -
  let ?q = "processingQueue s @ [invId]"
  let ?k = "admitted cfg (s\<lparr>processingQueue := ?q\<rparr>)"
  have "invId \<in> set (take ?k ?q @ drop ?k ?q)" by (simp only: append_take_drop_id) simp
  then show ?thesis by (auto simp: queueInvoice_def processQueue_admits)
qed

text \<open>
  C10 (as amended). Manually retrying a job whose status is \<open>failed\<close> resets its status to
  \<open>pending\<close>, clears \<open>lastError\<close>, leaves the retry count as it is, and queues the job
  again: it is then in the queue or already admitted. Manually retrying a job whose status
  is not \<open>failed\<close> is rejected with an error and changes neither the table nor the queue.
\<close>

theorem retryInvoice_effect:
  assumes "fst st invId = Some i"
  shows "(status i = failed \<longrightarrow>
            retryInvoice cfg st invId =
              (Inr (i\<lparr>status := pending, lastError := Null\<rparr>),
               (fst st)(invId \<mapsto> i\<lparr>status := pending, lastError := Null\<rparr>),
               queueInvoice cfg (snd st) (invoiceId i))
            \<and> retryCount (i\<lparr>status := pending, lastError := Null\<rparr>) = retryCount i
            \<and> invoiceId i \<in> set (processingQueue (queueInvoice cfg (snd st) (invoiceId i)))
                              \<union> set (inFlight (queueInvoice cfg (snd st) (invoiceId i))))
         \<and> (status i \<noteq> failed \<longrightarrow>
              retryInvoice cfg st invId = (Inl (mkError ''Can only retry failed invoices''), st))"
  using assms queueInvoice_enters [of "invoiceId i" cfg "snd st"]
  by (simp add: retryInvoice_def Let_def)

lemma failedJob_fields:
  "status failedJob = failed" "retryCount failedJob = Val 1" "invoiceId failedJob = ''job-1''"
  "status completedJob \<noteq> failed"
  by (simp_all add: failedJob_def completedJob_def job1_def)

lemma queue_first_job:
  "queueInvoice config0 initialState ''job-1'' =
     \<lparr>processingQueue = [], activeProcessing = 1, inFlight = [''job-1'']\<rparr>"
  by code_simp

text \<open>
  C10 as stated fails: the retry of a failed job with a retry count of 1 leaves the count
  at 1. The count is incremented when a run fails, in the \<open>catch\<close> block of
  \<open>processInvoice\<close>.
\<close>

theorem retryInvoice_counterexample:
  "status failedJob = failed \<and> retryCount failedJob = Val 1
   \<and> retryInvoice config0 ([''job-1'' \<mapsto> failedJob], initialState) ''job-1'' =
       (Inr (failedJob\<lparr>status := pending, lastError := Null\<rparr>),
        [''job-1'' \<mapsto> failedJob\<lparr>status := pending, lastError := Null\<rparr>],
        \<lparr>processingQueue = [], activeProcessing = 1, inFlight = [''job-1'']\<rparr>)
   \<and> retryCount (failedJob\<lparr>status := pending, lastError := Null\<rparr>) = Val 1"
  by (simp add: retryInvoice_def Let_def failedJob_fields queue_first_job)

theorem retryInvoice_effect_witness:
  "fst ([''job-1'' \<mapsto> failedJob], initialState) ''job-1'' = Some failedJob \<and> status failedJob = failed
   \<and> retryInvoice config0 ([''job-1'' \<mapsto> failedJob], initialState) ''job-1'' =
       (Inr (failedJob\<lparr>status := pending, lastError := Null\<rparr>),
        [''job-1'' \<mapsto> failedJob\<lparr>status := pending, lastError := Null\<rparr>],
        \<lparr>processingQueue = [], activeProcessing = 1, inFlight = [''job-1'']\<rparr>)
   \<and> fst ([''job-1'' \<mapsto> completedJob], initialState) ''job-1'' = Some completedJob
   \<and> status completedJob \<noteq> failed
   \<and> retryInvoice config0 ([''job-1'' \<mapsto> completedJob], initialState) ''job-1'' =
       (Inl (mkError ''Can only retry failed invoices''), ([''job-1'' \<mapsto> completedJob], initialState))"
proof -
  have a: "fst ([''job-1'' \<mapsto> failedJob], initialState) ''job-1'' = Some failedJob" by simp
  have b: "fst ([''job-1'' \<mapsto> completedJob], initialState) ''job-1'' = Some completedJob" by simp
  from retryInvoice_effect [OF a, of config0] retryInvoice_effect [OF b, of config0]
  show ?thesis by (simp add: failedJob_fields queue_first_job)
qed

subsection \<open>The mock generator\<close>

text \<open>
  What holds of every mock candidate: each amount is quantity times unit price, the total
  is subtotal plus tax, the tax is 18% of the subtotal rounded to two decimals, and the
  overall confidence lies between 0.85 and 0.95.
\<close>

lemma floor_half: "\<lfloor>(of_int n :: rat) + 1 / 2\<rfloor> = n"
  by (rule floor_unique) simp_all

lemma toFixed2_of_cents: "toFixed2 (of_int n / 100) = of_int n / 100"
proof (cases "n < 0")
  case True
  have "\<lfloor>- (of_int n / 100 :: rat) * 100 + 1 / 2\<rfloor> = - n"
    using floor_half [of "- n"] by simp
  with True show ?thesis by (simp add: toFixed2_def)
next
  case False
  have "\<lfloor>(of_int n / 100 :: rat) * 100 + 1 / 2\<rfloor> = n"
    using floor_half [of n] by simp
  with False show ?thesis by (simp add: toFixed2_def)
qed

lemma toFixed2_cents: "\<exists>n. toFixed2 x = of_int n / 100"
proof (cases "x < 0")
  case True
  then have "toFixed2 x = of_int (- \<lfloor>- x * 100 + 1 / 2\<rfloor>) / 100" by (simp add: toFixed2_def)
  then show ?thesis by blast
next
  case False
  then have "toFixed2 x = of_int \<lfloor>x * 100 + 1 / 2\<rfloor> / 100" by (simp add: toFixed2_def)
  then show ?thesis by blast
qed

lemma toFixed2_int_times: "toFixed2 (of_int k * toFixed2 x) = of_int k * toFixed2 x"
proof -
  obtain n where n: "toFixed2 x = of_int n / 100" using toFixed2_cents by blast
  have "of_int k * (of_int n / 100 :: rat) = of_int (k * n) / 100" by simp
  then show ?thesis unfolding n using toFixed2_of_cents [of "k * n"] by simp
qed

lemma toFixed2_sum: "toFixed2 (toFixed2 x + toFixed2 y) = toFixed2 x + toFixed2 y"
proof -
  obtain n m where n: "toFixed2 x = of_int n / 100" "toFixed2 y = of_int m / 100"
    using toFixed2_cents by blast
  have eq: "(of_int n / 100 + of_int m / 100 :: rat) = of_int (n + m) / 100"
    by (simp add: add_divide_distrib)
  show ?thesis unfolding n eq by (rule toFixed2_of_cents)
qed

lemma toFixed2_int_times': "toFixed2 ((of_int k + 1) * toFixed2 x) = (of_int k + 1) * toFixed2 x"
  using toFixed2_int_times [of "k + 1" x] by simp

lemma toFixed2_near: "\<bar>toFixed2 x - x\<bar> \<le> 1 / 200"
proof (cases "x < 0")
  case True
  define f where "f = \<lfloor>- x * 100 + 1 / 2\<rfloor>"
  have "of_int f \<le> - x * 100 + 1 / 2" "- x * 100 + 1 / 2 < of_int f + 1"
    unfolding f_def by linarith+
  moreover have "toFixed2 x = - (of_int f / 100)"
    using True by (simp add: toFixed2_def f_def)
  ultimately have "toFixed2 x - x \<le> 1 / 200" "- (toFixed2 x - x) \<le> 1 / 200"
    by linarith+
  then show ?thesis by (simp only: abs_le_iff)
next
  case False
  define f where "f = \<lfloor>x * 100 + 1 / 2\<rfloor>"
  have "of_int f \<le> x * 100 + 1 / 2" "x * 100 + 1 / 2 < of_int f + 1"
    unfolding f_def by linarith+
  moreover have "toFixed2 x = of_int f / 100"
    using False by (simp add: toFixed2_def f_def)
  ultimately have "toFixed2 x - x \<le> 1 / 200" "- (toFixed2 x - x) \<le> 1 / 200"
    by linarith+
  then show ?thesis by (simp only: abs_le_iff)
qed

lemma mock_amounts:
  "\<forall>item \<in> set (mockLineItems r st).
      orZero (amount item) = orZero (quantity item) * orZero (unitPrice item)"
  by (simp add: mockLineItems_def Let_def toFixed2_int_times')

lemma mock_total:
  "orZero (totalAmount (generateMockInvoiceData c r))
     = orZero (subtotal (generateMockInvoiceData c r)) + orZero (taxAmount (generateMockInvoiceData c r))"
  by (simp add: generateMockInvoiceData_def Let_def toFixed2_sum)

lemma mock_tax:
  "\<bar>orZero (taxAmount (generateMockInvoiceData c r))
      - 18 / 100 * orZero (subtotal (generateMockInvoiceData c r))\<bar> \<le> 1 / 200"
  using toFixed2_near [of "toFixed2 (r 2 * 50000 + 5000) * 18 / 100"]
  by (simp add: generateMockInvoiceData_def Let_def)

lemma mock_confidence:
  assumes "unitInterval r"
  shows "\<exists>x. confidenceScore (generateMockInvoiceData c r) = Val x \<and> 85 / 100 \<le> x \<and> x < 95 / 100"
  using assms by (simp add: generateMockInvoiceData_def Let_def unitInterval_def)

lemma draws0_unit: "unitInterval draws0"
  by (simp add: unitInterval_def draws0_def)

lemma mock_draws0:
  "generateMockInvoiceData clock0 draws0 =
     \<lparr>vendorName = Val ''ABC Technologies'', vendorEmail = Val ''contact@abctechnologies.com'',
      invoiceNumber = Val ''INV-100000'',
      lineItems =
        Val [\<lparr>description = Val ''Professional Services'', quantity = Val 1, unitPrice = Val 500,
               amount = Val 500, confidence = Val (9 / 10)\<rparr>,
             \<lparr>description = Val ''Consulting Fees'', quantity = Val 5, unitPrice = Val 1900,
               amount = Val 9500, confidence = Val (9 / 10)\<rparr>],
      subtotal = Val (1000002 / 100), taxRate = Val 18, taxAmount = Val 1800,
      discountAmount = Val 0, shippingAmount = Val 0, totalAmount = Val (1180002 / 100),
      currency = Val ''INR'', invoiceDate = Val ''2024-01-15'', dueDate = Val ''2024-02-14'',
      confidenceScore = Val (85 / 100)\<rparr>"
  by code_simp

lemma mock_draws0_validation:
  "validateInvoice clock0 (generateMockInvoiceData clock0 draws0) =
     \<lparr>isValid = True, errors = [], warnings = [MinorSubtotalDiscrepancy (1000002 / 100) 10000],
      requiresManualReview = False\<rparr>"
  unfolding mock_draws0 by code_simp

lemma draws0_items:
  "mockLineItems draws0 (1000002 / 100) =
     [\<lparr>description = Val ''Professional Services'', quantity = Val 1, unitPrice = Val 500,
        amount = Val 500, confidence = Val (9 / 10)\<rparr>,
      \<lparr>description = Val ''Consulting Fees'', quantity = Val 5, unitPrice = Val 1900,
        amount = Val 9500, confidence = Val (9 / 10)\<rparr>]"
  by code_simp

text \<open>
  C7. The claim asks of every mock candidate that the subtotal be exactly the sum of the
  line item amounts. The generator derives the unit price of the second item from the
  subtotal less the first amount, rounds it to two decimals and multiplies it by the
  quantity again, which loses up to half a cent per unit. With the draws \<open>draws0\<close> the
  subtotal is 10000.02 and the amounts are 500 and 9500: they sum to 10000.00, and
  validation, while it finds no error, reports a minor subtotal discrepancy.
\<close>

theorem mock_subtotal_differs_from_items:
  "unitInterval draws0
   \<and> subtotal (generateMockInvoiceData clock0 draws0) = Val (1000002 / 100)
   \<and> lineItems (generateMockInvoiceData clock0 draws0) = Val (mockLineItems draws0 (1000002 / 100))
   \<and> map quantity (mockLineItems draws0 (1000002 / 100)) = [Val 1, Val 5]
   \<and> map unitPrice (mockLineItems draws0 (1000002 / 100)) = [Val 500, Val 1900]
   \<and> map amount (mockLineItems draws0 (1000002 / 100)) = [Val 500, Val 9500]
   \<and> calculatedSubtotal (mockLineItems draws0 (1000002 / 100)) = 10000
   \<and> validateInvoice clock0 (generateMockInvoiceData clock0 draws0) =
       \<lparr>isValid = True, errors = [], warnings = [MinorSubtotalDiscrepancy (1000002 / 100) 10000],
        requiresManualReview = False\<rparr>"
proof -
  have f2: "subtotal (generateMockInvoiceData clock0 draws0) = Val (1000002 / 100)"
    unfolding mock_draws0 by simp
  have f3: "lineItems (generateMockInvoiceData clock0 draws0) = Val (mockLineItems draws0 (1000002 / 100))"
    unfolding mock_draws0 draws0_items by simp
  have f4: "map quantity (mockLineItems draws0 (1000002 / 100)) = [Val 1, Val 5]"
    "map unitPrice (mockLineItems draws0 (1000002 / 100)) = [Val 500, Val 1900]"
    "map amount (mockLineItems draws0 (1000002 / 100)) = [Val 500, Val 9500]"
    unfolding draws0_items by simp_all
  have f5: "calculatedSubtotal (mockLineItems draws0 (1000002 / 100)) = 10000"
    unfolding draws0_items by (simp add: calculatedSubtotal_def)
  from draws0_unit f2 f3 f4 f5 mock_draws0_validation show ?thesis by blast
qed

end
